theory Spec2Isabelle
  imports Main "HOL-Library.Product_Lexorder" "HOL-Library.Char_ord" "HOL-Library.List_Lexorder"
begin

section \<open>Python values and exceptions\<close>

text \<open>
  The plugin is Python 2 code working on untyped dictionaries (laser cutter profiles,
  the cloud update configuration).  A value is a JSON-like tree; a dictionary is an
  association list with distinct keys whose order is the iteration order.
\<close>

datatype pyval =
    PNone
  | PBool bool
  | PInt int
  | PStr string
  | PList "pyval list"
  | PDict "(string \<times> pyval) list"

text \<open>
  Every exception class that the modelled code raises, catches or lets through.
  \<open>ConnectTimeout\<close> is the subclass of \<open>requests.ConnectionError\<close> raised when the
  connection attempts time out.
\<close>

datatype py_exn =
    ValueError
  | TypeError
  | KeyError
  | AttributeError
  | OSError
  | IOError
  | IndexError
  | RecursionError
  | CalledProcessError int string
  | InvalidProfileError
  | CouldNotOverwriteError
  | MaxRetryError
  | HTTPError
  | ConnectionError
  | ConnectTimeout
  | OtherException string

text \<open>\<open>d[k]\<close>: a missing key raises KeyError, a value that is no dictionary TypeError.\<close>

fun py_getitem :: "pyval \<Rightarrow> string \<Rightarrow> py_exn + pyval" where
  "py_getitem (PDict kvs) k = (case map_of kvs k of None \<Rightarrow> Inl KeyError | Some v \<Rightarrow> Inr v)"
| "py_getitem _ k = Inl TypeError"

text \<open>Storing under a key keeps the position of a key that is present and appends a new one.\<close>

fun alist_set :: "string \<Rightarrow> pyval \<Rightarrow> (string \<times> pyval) list \<Rightarrow> (string \<times> pyval) list" where
  "alist_set k v [] = [(k, v)]"
| "alist_set k v ((k', v') # kvs) = (if k' = k then (k, v) # kvs else (k', v') # alist_set k v kvs)"

text \<open>\<open>d[k] = v\<close> with a string key: only a dictionary accepts it.\<close>

fun py_setitem :: "pyval \<Rightarrow> string \<Rightarrow> pyval \<Rightarrow> py_exn + pyval" where
  "py_setitem (PDict kvs) k v = Inr (PDict (alist_set k v kvs))"
| "py_setitem _ k v = Inl TypeError"

text \<open>\<open>d[k1][k2] = v\<close>: the inner dictionary is fetched, then updated in place.\<close>

definition py_setitem2 :: "pyval \<Rightarrow> string \<Rightarrow> string \<Rightarrow> pyval \<Rightarrow> py_exn + pyval" where
  "py_setitem2 d k1 k2 v =
     (case py_getitem d k1 of
        Inl e \<Rightarrow> Inl e
      | Inr inner \<Rightarrow>
          (case py_setitem inner k2 v of
             Inl e \<Rightarrow> Inl e
           | Inr inner' \<Rightarrow> py_setitem d k1 inner'))"

section \<open>Regular expressions (the fragment of Python's \<open>re\<close> that the code uses)\<close>

datatype cclass = OneOf "char list" | AnyButNewline

fun in_class :: "cclass \<Rightarrow> char \<Rightarrow> bool" where
  "in_class (OneOf cs) c = (c \<in> set cs)"
| "in_class AnyButNewline c = (c \<noteq> CHR 0x0A)"

datatype regex =
    Lit string
  | One cclass
  | Many1 cclass
  | Seq regex regex
  | Alt regex regex
  | Opt regex
  | Grp string regex
  | Eos

type_synonym groups = "string \<rightharpoonup> string"

text \<open>
  A backtracking matcher in continuation-passing style.  \<open>Many1\<close> is the greedy \<open>+\<close>
  on a character class: it takes the longest run and gives characters back one at a time
  while the rest of the pattern fails.  \<open>Opt\<close> is the greedy \<open>?\<close>, \<open>Eos\<close> is \<open>$\<close>
  (the end of the text, or just before a final newline), \<open>Grp\<close> a capturing group.
\<close>

fun many1_bt :: "nat \<Rightarrow> string \<Rightarrow> groups \<Rightarrow> (string \<Rightarrow> groups \<Rightarrow> 'r option) \<Rightarrow> 'r option" where
  "many1_bt 0 s g k = None"
| "many1_bt (Suc n) s g k =
     (case k (drop (Suc n) s) g of Some r \<Rightarrow> Some r | None \<Rightarrow> many1_bt n s g k)"

fun rmatch :: "regex \<Rightarrow> string \<Rightarrow> groups \<Rightarrow> (string \<Rightarrow> groups \<Rightarrow> 'r option) \<Rightarrow> 'r option" where
  "rmatch (Lit t) s g k = (if take (length t) s = t then k (drop (length t) s) g else None)"
| "rmatch (One c) s g k =
     (case s of [] \<Rightarrow> None | x # xs \<Rightarrow> if in_class c x then k xs g else None)"
| "rmatch (Many1 c) s g k = many1_bt (length (takeWhile (in_class c) s)) s g k"
| "rmatch (Seq a b) s g k = rmatch a s g (\<lambda>s' g'. rmatch b s' g' k)"
| "rmatch (Alt a b) s g k =
     (case rmatch a s g k of Some r \<Rightarrow> Some r | None \<Rightarrow> rmatch b s g k)"
| "rmatch (Opt a) s g k = (case rmatch a s g k of Some r \<Rightarrow> Some r | None \<Rightarrow> k s g)"
| "rmatch (Grp n a) s g k =
     rmatch a s g (\<lambda>s' g'. k s' (g'(n \<mapsto> take (length s - length s') s)))"
| "rmatch Eos s g k = (if s = [] \<or> s = [CHR 0x0A] then k s g else None)"

text \<open>\<open>re.match\<close>: anchored at the start, not at the end; the result is the groups.\<close>

definition re_match :: "regex \<Rightarrow> string \<Rightarrow> groups option" where
  "re_match r s = rmatch r s Map.empty (\<lambda>s' g. Some g)"

definition digit :: cclass where
  "digit = OneOf ''0123456789''"

section \<open>\<open>distutils.version.StrictVersion\<close>\<close>

text \<open>
  The pattern \<^verbatim>\<open>^(\d+) \. (\d+) (\. (\d+))? ([ab](\d+))?$\<close> (verbose mode, so the
  blanks are not part of it), with its six numbered groups.
\<close>

definition version_re :: regex where
  "version_re =
     Seq (Grp ''1'' (Many1 digit)) (Seq (Lit ''.'') (Seq (Grp ''2'' (Many1 digit))
     (Seq (Opt (Grp ''3'' (Seq (Lit ''.'') (Grp ''4'' (Many1 digit)))))
     (Seq (Opt (Grp ''5'' (Seq (One (OneOf ''ab'')) (Grp ''6'' (Many1 digit))))) Eos))))"

record strict_version =
  version :: "nat \<times> nat \<times> nat"
  prerelease :: "(char \<times> nat) option"

text \<open>\<open>string.atoi\<close> on a text of decimal digits (the only texts it is given).\<close>

definition atoi :: "string \<Rightarrow> nat" where
  "atoi s = foldl (\<lambda>n c. 10 * n + (of_char c - 48)) 0 s"

text \<open>\<open>string.atoi\<close> on a group: a group that took no part in the match is None.\<close>

definition atoi_group :: "string option \<Rightarrow> py_exn + nat" where
  "atoi_group x = (case x of None \<Rightarrow> Inl TypeError | Some s \<Rightarrow> Inr (atoi s))"

text \<open>
  The constructor parses its argument and raises ValueError when the pattern does not
  match.  An absent or empty \<open>patch\<close> group gives patch 0; the prerelease is the letter
  and its number.
\<close>

definition StrictVersion :: "string \<Rightarrow> py_exn + strict_version" where
  "StrictVersion vstring =
     (case re_match version_re vstring of
        None \<Rightarrow> Inl ValueError
      | Some g \<Rightarrow>
          (case atoi_group (g ''1'') of Inl e \<Rightarrow> Inl e | Inr major \<Rightarrow>
          (case atoi_group (g ''2'') of Inl e \<Rightarrow> Inl e | Inr minor \<Rightarrow>
          (case (if g ''4'' \<noteq> None \<and> g ''4'' \<noteq> Some [] then atoi_group (g ''4'') else Inr 0) of
             Inl e \<Rightarrow> Inl e | Inr patch \<Rightarrow>
          (case g ''5'' of
             Some (letter # _) \<Rightarrow>
               (case atoi_group (g ''6'') of
                  Inl e \<Rightarrow> Inl e
                | Inr num \<Rightarrow>
                    Inr \<lparr>version = (major, minor, patch), prerelease = Some (letter, num)\<rparr>)
           | _ \<Rightarrow> Inr \<lparr>version = (major, minor, patch), prerelease = None\<rparr>)))))"

text \<open>Python 2's \<open>cmp\<close>; on tuples it is the lexicographic order.\<close>

definition py_cmp :: "'a::linorder \<Rightarrow> 'a \<Rightarrow> int" where
  "py_cmp a b = (if a < b then - 1 else if a = b then 0 else 1)"

text \<open>
  \<open>StrictVersion.__cmp__\<close>: the numeric versions first; when they agree, a version
  with a prerelease is smaller than the one without, and two prereleases are compared.
\<close>

definition sv_cmp :: "strict_version \<Rightarrow> strict_version \<Rightarrow> int" where
  "sv_cmp self other =
     (let compare = py_cmp (version self) (version other) in
      if compare = 0 then
        (case (prerelease self, prerelease other) of
           (None, None) \<Rightarrow> 0
         | (Some p, None) \<Rightarrow> - 1
         | (None, Some q) \<Rightarrow> 1
         | (Some p, Some q) \<Rightarrow> py_cmp p q)
      else compare)"

definition sv_eq :: "strict_version \<Rightarrow> strict_version \<Rightarrow> bool" where
  "sv_eq a b = (sv_cmp a b = 0)"

definition sv_lt :: "strict_version \<Rightarrow> strict_version \<Rightarrow> bool" where
  "sv_lt a b = (sv_cmp a b < 0)"

definition sv_gt :: "strict_version \<Rightarrow> strict_version \<Rightarrow> bool" where
  "sv_gt a b = (sv_cmp a b > 0)"

section \<open>The world of the migration: settings, profiles, files, processes, log\<close>

datatype level = DEBUG | INFO | WARNING | ERROR | EXCEPTION py_exn

datatype fs_kind = Directory | NoDirectory

datatype proc_result = Exited int string | NotStarted

text \<open>
  \<open>settings_version\<close> is the settings key \<open>version\<close>; \<open>profiles\<close> and \<open>default_id\<close>
  are the store of the laser cutter profile manager; \<open>site_packages\<close> is the listing
  of \<^verbatim>\<open>/home/pi/site-packages\<close> (None when it is no directory); \<open>shell\<close> tells how the
  n-th process started by the plugin ends, \<open>executed\<close> lists the commands run so far;
  \<open>log_entries\<close> is what the logger received (level, format text, arguments; the
  quotation marks of the texts are left out).
\<close>

record world =
  settings_version :: "string option"
  profiles :: "string \<rightharpoonup> pyval"
  default_id :: string
  site_packages :: "(string \<times> fs_kind) list option"
  shell :: "nat \<Rightarrow> string list \<Rightarrow> proc_result"
  executed :: "string list list"
  log_entries :: "(level \<times> string \<times> string list) list"

text \<open>A computation returns a value or raises, and leaves a world behind either way.\<close>

type_synonym 'a io = "world \<Rightarrow> (py_exn + 'a) \<times> world"

definition io_ret :: "'a \<Rightarrow> 'a io" where
  "io_ret x w = (Inr x, w)"

definition io_raise :: "py_exn \<Rightarrow> 'a io" where
  "io_raise e w = (Inl e, w)"

definition io_bind :: "'a io \<Rightarrow> ('a \<Rightarrow> 'b io) \<Rightarrow> 'b io" where
  "io_bind m f w = (case m w of (Inl e, w') \<Rightarrow> (Inl e, w') | (Inr x, w') \<Rightarrow> f x w')"

definition io_then :: "unit io \<Rightarrow> 'b io \<Rightarrow> 'b io" where
  "io_then m n = io_bind m (\<lambda>_. n)"

definition io_lift :: "py_exn + 'a \<Rightarrow> 'a io" where
  "io_lift r w = (r, w)"

text \<open>\<open>try: m except: h\<close>, where \<open>h\<close> tells which exceptions it handles.\<close>

definition io_try :: "'a io \<Rightarrow> (py_exn \<Rightarrow> 'a io option) \<Rightarrow> 'a io" where
  "io_try m h w =
     (case m w of
        (Inl e, w') \<Rightarrow> (case h e of Some k \<Rightarrow> k w' | None \<Rightarrow> (Inl e, w'))
      | (Inr x, w') \<Rightarrow> (Inr x, w'))"

definition logger :: "level \<Rightarrow> string \<Rightarrow> string list \<Rightarrow> unit io" where
  "logger lvl msg args w = (Inr (), w\<lparr>log_entries := log_entries w @ [(lvl, msg, args)]\<rparr>)"

definition str_of :: "string option \<Rightarrow> string" where
  "str_of x = (case x of None \<Rightarrow> ''None'' | Some s \<Rightarrow> s)"

subsection \<open>The laser cutter profile manager\<close>

text \<open>
  Modelled from the spec: the profile manager (\<^verbatim>\<open>octoprint_mrbeam/profile.py\<close>) is not
  among the source files.  The spec describes it as the owner of the hardware profiles,
  of which exactly one is marked default, and which the migration reads, creates,
  overwrites and sets default.  A profile is stored under its \<open>id\<close>.
\<close>

definition lcpm_get_default :: "pyval io" where
  "lcpm_get_default w =
     (case profiles w (default_id w) of
        None \<Rightarrow> (Inl InvalidProfileError, w)
      | Some p \<Rightarrow> (Inr p, w))"

definition lcpm_exists :: "string \<Rightarrow> bool io" where
  "lcpm_exists pid w = (Inr (profiles w pid \<noteq> None), w)"

definition lcpm_set_default :: "string \<Rightarrow> unit io" where
  "lcpm_set_default pid w = (Inr (), w\<lparr>default_id := pid\<rparr>)"

definition lcpm_save :: "pyval \<Rightarrow> bool \<Rightarrow> bool \<Rightarrow> unit io" where
  "lcpm_save profile allow_overwrite make_default w =
     (case py_getitem profile ''id'' of
        Inr (PStr pid) \<Rightarrow>
          if profiles w pid \<noteq> None \<and> \<not> allow_overwrite then (Inl CouldNotOverwriteError, w)
          else (Inr (), w\<lparr>profiles := (profiles w)(pid \<mapsto> profile),
                           default_id := (if make_default then pid else default_id w)\<rparr>)
      | _ \<Rightarrow> (Inl InvalidProfileError, w))"

subsection \<open>Files and processes\<close>

text \<open>
  \<open>shutil.rmtree\<close> on an entry of the site-packages directory: it removes a directory
  and raises OSError on anything else (a plain file, a missing path).
\<close>

definition shutil_rmtree :: "string \<Rightarrow> unit io" where
  "shutil_rmtree f w =
     (case site_packages w of
        None \<Rightarrow> (Inl OSError, w)
      | Some es \<Rightarrow>
          (case map_of es f of
             Some Directory \<Rightarrow> (Inr (), w\<lparr>site_packages := Some (filter (\<lambda>e. fst e \<noteq> f) es)\<rparr>)
           | _ \<Rightarrow> (Inl OSError, w)))"

text \<open>
  \<open>subprocess.check_output(cmd, stderr=subprocess.STDOUT)\<close>: the combined output of a
  process that exits with 0, CalledProcessError (exit code and output) when it exits with
  another code, OSError when the program cannot be started.
\<close>

definition check_output :: "string list \<Rightarrow> string io" where
  "check_output cmd w =
     (let w' = w\<lparr>executed := executed w @ [cmd]\<rparr> in
      case shell w (length (executed w)) cmd of
        Exited code out \<Rightarrow>
          if code = 0 then (Inr out, w') else (Inl (CalledProcessError code out), w')
      | NotStarted \<Rightarrow> (Inl OSError, w'))"

section \<open>\<open>migrate.py\<close>: class \<open>Migration\<close>\<close>

record migration =
  version_previous :: "string option"
  version_current :: string
  device_series :: string

definition VERSION_DELETE_EGG_DIR_LEFTOVERS :: string where
  "VERSION_DELETE_EGG_DIR_LEFTOVERS = ''0.1.17''"

definition VERSION_SETUP_IPTABLES :: string where
  "VERSION_SETUP_IPTABLES = ''0.1.19''"

text \<open>\<open>__init__\<close>: the previous version is read from the settings once, here.\<close>

definition Migration_init :: "string \<Rightarrow> string \<Rightarrow> world \<Rightarrow> migration" where
  "Migration_init plugin_version series w =
     \<lparr>version_previous = settings_version w, version_current = plugin_version,
      device_series = series\<rparr>"

definition is_migration_required :: "migration \<Rightarrow> bool option io" where
  "is_migration_required self =
     (case version_previous self of
        None \<Rightarrow> io_ret (Some True)
      | Some prev \<Rightarrow>
          io_bind
            (io_try (io_bind (io_lift (StrictVersion prev)) (\<lambda>_. io_ret True))
               (\<lambda>e. if e = ValueError
                    then Some (io_then
                      (logger ERROR ''Previous version is invalid: {}. ValueError from StrictVersion: {}''
                         [prev, ''invalid version number '' @ prev])
                      (io_ret False))
                    else None))
            (\<lambda>valid.
               if \<not> valid then io_ret None
               else io_bind (io_lift (StrictVersion (version_current self))) (\<lambda>cur.
                    io_bind (io_lift (StrictVersion prev)) (\<lambda>old.
                    io_ret (Some (sv_gt cur old))))))"

definition compare_versions :: "string option \<Rightarrow> string option \<Rightarrow> bool \<Rightarrow> bool option io" where
  "compare_versions lower_vers higher_vers equal_ok =
     (case (lower_vers, higher_vers) of
        (Some lower, Some higher) \<Rightarrow>
          io_bind
            (io_try
               (io_bind (io_lift (StrictVersion lower)) (\<lambda>_.
                io_bind (io_lift (StrictVersion higher)) (\<lambda>_. io_ret True)))
               (\<lambda>e. if e = ValueError
                    then Some (io_then
                      (logger ERROR ''_compare_versions() One of the two version is invalid: lower_vers:{}, higher_vers:{}. ValueError from StrictVersion: {}''
                         [lower, higher])
                      (io_ret False))
                    else None))
            (\<lambda>valid.
               if \<not> valid then io_ret None
               else io_bind (io_lift (StrictVersion lower)) (\<lambda>l.
                    io_bind (io_lift (StrictVersion higher)) (\<lambda>h.
                    if sv_eq l h then io_ret (Some equal_ok)
                    else io_bind (io_lift (StrictVersion lower)) (\<lambda>l'.
                         io_bind (io_lift (StrictVersion higher)) (\<lambda>h'.
                         io_ret (Some (sv_lt l' h')))))))
      | _ \<Rightarrow> io_ret None)"

definition save_current_version :: "migration \<Rightarrow> unit io" where
  "save_current_version self w = (Inr (), w\<lparr>settings_version := Some (version_current self)\<rparr>)"

definition migrate_from_0_0_0 :: "unit io" where
  "migrate_from_0_0_0 =
     io_then (logger INFO ''migrate_from_0_0_0() '' [])
    (io_bind lcpm_get_default (\<lambda>my_profile.
     io_bind (io_lift (py_setitem2 my_profile ''laser'' ''intensity_factor'' (PInt 13))) (\<lambda>my_profile.
     io_then (logger INFO ''migrate_from_0_0_0() Set lasercutterProfile [laser][intensity_factor] = 13'' [])
    (io_bind (io_lift (py_setitem2 my_profile ''dust'' ''auto_mode_time'' (PInt 60))) (\<lambda>my_profile.
     io_then (logger INFO ''migrate_from_0_0_0() Set lasercutterProfile [dust][auto_mode_time] = 60'' [])
    (lcpm_save my_profile True True))))))"

text \<open>The pattern \<^verbatim>\<open>Mr_Beam-(?P<version>[0-9.]+)[.-].+\<close>.\<close>

definition egg_re :: regex where
  "egg_re =
     Seq (Lit ''Mr_Beam-'') (Seq (Grp ''version'' (Many1 (OneOf ''0123456789.'')))
     (Seq (One (OneOf ''.-'')) (Many1 AnyButNewline)))"

definition site_packages_dir :: string where
  "site_packages_dir = ''/home/pi/site-packages''"

text \<open>The body of the loop over \<open>os.listdir(site_packages_dir)\<close>, for one entry.\<close>

definition egg_entry :: "string \<Rightarrow> unit io" where
  "egg_entry f =
     (case re_match egg_re f of
        None \<Rightarrow> io_ret ()
      | Some g \<Rightarrow>
          io_bind (compare_versions (g ''version'') (Some VERSION_DELETE_EGG_DIR_LEFTOVERS) False)
            (\<lambda>r. if r = Some True
                 then io_then
                        (logger INFO ''delete_egg_dir_leftovers() Deleting dir: %s''
                           [site_packages_dir @ ''/'' @ f])
                        (shutil_rmtree f)
                 else io_ret ()))"

fun egg_loop :: "string list \<Rightarrow> unit io" where
  "egg_loop [] = io_ret ()"
| "egg_loop (f # fs) = io_then (egg_entry f) (egg_loop fs)"

definition delete_egg_dir_leftovers :: "unit io" where
  "delete_egg_dir_leftovers =
     io_then (logger INFO ''delete_egg_dir_leftovers() '' [])
       (\<lambda>w. case site_packages w of
              Some es \<Rightarrow> egg_loop (map fst es) w
            | None \<Rightarrow>
                logger ERROR
                  ''delete_egg_dir_leftovers() Dir not existing %s, Cannot check for egg leftovers.''
                  [] w)"

definition exec_cmd_output :: "string list \<Rightarrow> (string \<times> int) io" where
  "exec_cmd_output cmd =
     io_then (logger DEBUG ''_exec_cmd_output() command: %s'' [concat cmd])
       (io_try (io_bind (check_output cmd) (\<lambda>output. io_ret (output, 0)))
          (\<lambda>e. case e of
                 CalledProcessError returncode output \<Rightarrow>
                   Some (io_then
                     (logger DEBUG ''Fail to execute command %s, return code: %s, output: %s''
                        [concat cmd, output])
                     (io_ret (output, returncode)))
               | _ \<Rightarrow> None))"

definition iptables_file :: string where
  "iptables_file = ''/etc/network/if-up.d/iptables''"

definition iptables_body :: string where
  "iptables_body =
     ''#!/bin/sh'' @ [CHR 0x0A] @
     ''iptables -t nat -F'' @ [CHR 0x0A] @
     ''# route all incoming traffic to localhost'' @ [CHR 0x0A] @
     ''sysctl -w net.ipv4.conf.all.route_localnet=1'' @ [CHR 0x0A] @
     ''iptables -t nat -I PREROUTING -p tcp --dport 80 -j DNAT --to 127.0.0.1:80'' @ [CHR 0x0A]"

definition setup_iptables :: "unit io" where
  "setup_iptables =
     io_then (logger INFO ''setup_iptables() '' [])
    (io_bind (exec_cmd_output
        [''sudo'', ''bash'', ''-c'', ''echo '' @ [CHR 0x27] @ iptables_body @ [CHR 0x27] @ '' > '' @ iptables_file]) (\<lambda>(out, code).
     if code \<noteq> 0
     then logger ERROR ''setup_iptables() Error while writing iptables conf: %s'' [out]
     else
     io_bind (exec_cmd_output [''sudo'', ''chmod'', ''+x'', iptables_file]) (\<lambda>(out, code).
     if code \<noteq> 0
     then logger ERROR ''setup_iptables() Error while chmod iptables conf: %s'' [out]
     else
     io_bind (exec_cmd_output [''sudo'', ''bash'', ''-c'', iptables_file]) (\<lambda>(out, code).
     if code \<noteq> 0
     then logger ERROR ''setup_iptables() Error while executing iptables conf: %s'' [out]
     else logger INFO ''setup_iptables() Created and loaded iptables conf: %s'' [iptables_file]))))"

subsection \<open>Laser cutter profiles\<close>

definition is_lasercutterProfile_set :: "bool io" where
  "is_lasercutterProfile_set =
     io_bind lcpm_get_default (\<lambda>p.
     io_bind (io_lift (py_getitem p ''id'')) (\<lambda>i.
     io_ret (i \<noteq> PStr ''my_default'')))"

definition set_lasercutterPorfile_2all :: "migration \<Rightarrow> unit io" where
  "set_lasercutterPorfile_2all self =
     (let profile_id = ''MrBeam'' @ device_series self in
      io_bind (lcpm_exists profile_id) (\<lambda>ex.
      if ex then
        io_then (lcpm_set_default profile_id)
          (logger INFO ''set_lasercutterPorfile_2all() Set lasercutterProfile %s as default.''
             [profile_id])
      else
        logger WARNING
          ''set_lasercutterPorfile_2all() No lasercutterProfile %s found. Keep using generic profile.''
          [profile_id]))"

text \<open>
  In the log call that ends the creating branch the second argument is the profile
  itself; the model records the profile id only.
\<close>

definition set_lasercutterPorfile_2C :: "unit io" where
  "set_lasercutterPorfile_2C =
     (let profile_id = ''MrBeam2C''; model = ''C'' in
      io_bind (lcpm_exists profile_id) (\<lambda>ex.
      if ex then
        io_then (lcpm_set_default profile_id)
          (logger INFO ''set_lasercutterPorfile_2C() Set lasercutterProfile %s as default.''
             [profile_id])
      else
        io_bind lcpm_get_default (\<lambda>default_profile.
        io_bind (io_lift (py_setitem default_profile ''id'' (PStr profile_id))) (\<lambda>default_profile.
        io_bind (io_lift (py_setitem default_profile ''name'' (PStr ''MrBeam2''))) (\<lambda>default_profile.
        io_bind (io_lift (py_setitem default_profile ''model'' (PStr model))) (\<lambda>default_profile.
        io_bind (io_lift (py_setitem default_profile ''legacy'' (PDict []))) (\<lambda>default_profile.
        io_bind (io_lift (py_setitem2 default_profile ''legacy'' ''job_done_home_position_x''
                   (PInt 250))) (\<lambda>default_profile.
        io_then (lcpm_save default_profile True True)
          (logger INFO
             ''set_lasercutterPorfile_2C() Created lasercutterProfile %s and set as default. Content: %s''
             [profile_id])))))))))"

definition set_lasercutterPorfile_2D :: "unit io" where
  "set_lasercutterPorfile_2D =
     (let profile_id = ''MrBeam2D''; model = ''D'' in
      io_bind (lcpm_exists profile_id) (\<lambda>ex.
      if ex then
        io_then (lcpm_set_default profile_id)
          (logger INFO ''set_lasercutterPorfile_2D() Set lasercutterProfile %s as default.''
             [profile_id])
      else
        io_bind lcpm_get_default (\<lambda>default_profile.
        io_bind (io_lift (py_setitem default_profile ''id'' (PStr profile_id))) (\<lambda>default_profile.
        io_bind (io_lift (py_setitem default_profile ''name'' (PStr ''MrBeam2''))) (\<lambda>default_profile.
        io_bind (io_lift (py_setitem default_profile ''model'' (PStr model))) (\<lambda>default_profile.
        io_then (lcpm_save default_profile True True)
          (logger INFO
             ''set_lasercutterPorfile_2D() Created lasercutterProfile %s and set as default. Content: %s''
             [profile_id])))))))"

definition set_lasercutterProfile :: "migration \<Rightarrow> unit io" where
  "set_lasercutterProfile self =
     io_bind lcpm_get_default (\<lambda>p.
     io_bind (io_lift (py_getitem p ''id'')) (\<lambda>i.
     if i = PStr ''my_default'' then
       io_then
         (logger INFO ''set_lasercutterPorfile() Setting lasercutterProfile for device %s''
            [device_series self])
         (if device_series self = ''2X'' then
            logger ERROR
              ''set_lasercutterProfile() Cannot set lasercutterProfile. device_series is %s: ''
              [device_series self]
          else
            io_then
              (if device_series self = ''2C'' then set_lasercutterPorfile_2C
               else if device_series self = ''2D'' then set_lasercutterPorfile_2D
               else set_lasercutterPorfile_2all self)
              (save_current_version self))
     else io_ret ()))"

subsection \<open>\<open>run\<close>\<close>

text \<open>
  The guard of each migration step:
  \<^verbatim>\<open>self.version_previous is None or self._compare_versions(self.version_previous, t, equal_ok=False)\<close>.
\<close>

definition step_due :: "migration \<Rightarrow> string \<Rightarrow> bool io" where
  "step_due self threshold =
     (if version_previous self = None then io_ret True
      else io_bind (compare_versions (version_previous self) (Some threshold) False)
             (\<lambda>r. io_ret (r = Some True)))"

text \<open>The body of the \<open>try\<close> of \<open>run\<close>.\<close>

definition run_body :: "migration \<Rightarrow> unit io" where
  "run_body self =
     io_bind is_lasercutterProfile_set (\<lambda>is_set.
     io_then (if \<not> is_set then set_lasercutterProfile self else io_ret ())
    (io_bind (is_migration_required self) (\<lambda>required.
     if required = Some True then
       io_then (logger INFO ''Starting migration from v{} to v{}''
                  [str_of (version_previous self), version_current self])
      (io_bind (step_due self ''0.1.13'') (\<lambda>due.
       io_then (if due then migrate_from_0_0_0 else io_ret ())
      (io_bind (step_due self VERSION_DELETE_EGG_DIR_LEFTOVERS) (\<lambda>due.
       io_then (if due then delete_egg_dir_leftovers else io_ret ())
      (io_bind (step_due self VERSION_SETUP_IPTABLES) (\<lambda>due.
       io_then (if due then setup_iptables else io_ret ())
      (save_current_version self)))))))
     else logger DEBUG ''No migration required.'' [])))"

text \<open>\<open>run\<close>: the bare \<open>except:\<close> catches every exception and logs it.\<close>

definition run :: "migration \<Rightarrow> unit io" where
  "run self =
     io_try (run_body self)
       (\<lambda>e. Some (logger (EXCEPTION e) ''Unhandled exception during migration: '' []))"

definition migrate :: "string \<Rightarrow> string \<Rightarrow> unit io" where
  "migrate plugin_version series w = run (Migration_init plugin_version series w) w"

section \<open>\<open>software_update_information.py\<close>\<close>

subsection \<open>Deep merge\<close>

text \<open>
  Modelled from the spec: \<open>dict_merge\<close> is imported from \<^verbatim>\<open>octoprint_mrbeam.util\<close>, which is
  not among the source files.  The spec gives its contract: it merges two mapping trees;
  where both have a key, two mappings are merged recursively and in every other
  combination the value of the second argument wins.  Keys of the first argument keep
  their place, new keys are appended in the order of the second.
\<close>

fun dict_merge :: "pyval \<Rightarrow> pyval \<Rightarrow> pyval"
  and merge_items :: "(string \<times> pyval) list \<Rightarrow> (string \<times> pyval) list \<Rightarrow> (string \<times> pyval) list" where
  "dict_merge (PDict a) (PDict b) = PDict (merge_items a b)"
| "dict_merge a b = b"
| "merge_items a [] = a"
| "merge_items a ((k, v) # b) =
     merge_items (alist_set k (case map_of a k of None \<Rightarrow> v | Some old \<Rightarrow> dict_merge old v) a) b"


subsection \<open>Dates\<close>

text \<open>
  A \<open>datetime.date\<close> is (year, month, day); dates are compared as these triples.
  \<open>strptime_ymd\<close> is \<^verbatim>\<open>datetime.strptime(s, "%Y-%m-%d").date()\<close>: the text has to match
  the pattern of the three directives, nothing may remain after the match, and the day has
  to exist in the month; everything else raises ValueError.
\<close>

type_synonym date = "nat \<times> nat \<times> nat"

definition re_match_end :: "regex \<Rightarrow> string \<Rightarrow> (groups \<times> string) option" where
  "re_match_end r s = rmatch r s Map.empty (\<lambda>s' g. Some (g, s'))"

definition ymd_re :: regex where
  "ymd_re =
     Seq (Grp ''Y'' (Seq (One digit) (Seq (One digit) (Seq (One digit) (One digit)))))
    (Seq (Lit ''-'')
    (Seq (Grp ''m'' (Alt (Seq (Lit ''1'') (One (OneOf ''012'')))
                    (Alt (Seq (Lit ''0'') (One (OneOf ''123456789'')))
                         (One (OneOf ''123456789'')))))
    (Seq (Lit ''-'')
         (Grp ''d'' (Alt (Seq (Lit ''3'') (One (OneOf ''01'')))
                    (Alt (Seq (One (OneOf ''12'')) (One digit))
                    (Alt (Seq (Lit ''0'') (One (OneOf ''123456789'')))
                    (Alt (One (OneOf ''123456789''))
                         (Seq (Lit '' '') (One (OneOf ''123456789'')))))))))))"

definition is_leap :: "nat \<Rightarrow> bool" where
  "is_leap y = (y mod 4 = 0 \<and> (y mod 100 \<noteq> 0 \<or> y mod 400 = 0))"

definition days_in_month :: "nat \<Rightarrow> nat \<Rightarrow> nat" where
  "days_in_month y m =
     (if m = 2 then (if is_leap y then 29 else 28)
      else if m \<in> {4, 6, 9, 11} then 30 else 31)"

definition int_of_digits :: "string \<Rightarrow> nat" where
  "int_of_digits s = atoi (filter (\<lambda>c. c \<noteq> CHR '' '') s)"

definition strptime_ymd :: "string \<Rightarrow> py_exn + date" where
  "strptime_ymd data_string =
     (case re_match_end ymd_re data_string of
        None \<Rightarrow> Inl ValueError
      | Some (g, rest) \<Rightarrow>
          if rest \<noteq> [] then Inl ValueError
          else
            (case (g ''Y'', g ''m'', g ''d'') of
               (Some y, Some m, Some d) \<Rightarrow>
                 let year = atoi y; month = atoi m; day = int_of_digits d in
                 if 1 \<le> year \<and> 1 \<le> day \<and> day \<le> days_in_month year month
                 then Inr (year, month, day) else Inl ValueError
             | _ \<Rightarrow> Inl KeyError))"



subsection \<open>\<open>_generate_config_of_beamos\<close>\<close>

text \<open>
  The operator \<open>in\<close> with a string on the left: a key of a dictionary, a part of a string,
  an element of a list; other values are not iterable.
\<close>

fun is_substring :: "string \<Rightarrow> string \<Rightarrow> bool" where
  "is_substring t [] = (t = [])"
| "is_substring t (x # xs) = (take (length t) (x # xs) = t \<or> is_substring t xs)"

fun py_contains :: "pyval \<Rightarrow> string \<Rightarrow> py_exn + bool" where
  "py_contains (PDict kvs) k = Inr (map_of kvs k \<noteq> None)"
| "py_contains (PStr s) k = Inr (is_substring k s)"
| "py_contains (PList xs) k = Inr (PStr k \<in> set xs)"
| "py_contains _ k = Inl TypeError"

text \<open>
  The loop over \<^verbatim>\<open>moduleconfig["beamos_date"].items()\<close>, with the two variables that it
  updates as arguments.
\<close>

fun beamos_loop :: "date \<Rightarrow> string \<Rightarrow> (string \<times> pyval) list \<Rightarrow> date \<Rightarrow> pyval \<Rightarrow> py_exn + pyval" where
  "beamos_loop beamos_date tierversion [] prev_beamos_date_entry beamos_date_config =
     Inr beamos_date_config"
| "beamos_loop beamos_date tierversion ((date, beamos_config) # rest) prev_beamos_date_entry
       beamos_date_config =
     (case strptime_ymd date of
        Inl e \<Rightarrow> Inl e
      | Inr d \<Rightarrow>
          if beamos_date \<ge> d \<and> prev_beamos_date_entry < beamos_date then
            (case strptime_ymd date of
               Inl e \<Rightarrow> Inl e
             | Inr prev' \<Rightarrow>
                 (case py_contains beamos_config tierversion of
                    Inl e \<Rightarrow> Inl e
                  | Inr has_tier \<Rightarrow>
                      (case (if has_tier
                             then (case py_getitem beamos_config tierversion of
                                     Inl e \<Rightarrow> Inl e
                                   | Inr beamos_config_module_tier \<Rightarrow>
                                       Inr (dict_merge beamos_config beamos_config_module_tier))
                             else Inr beamos_config) of
                         Inl e \<Rightarrow> Inl e
                       | Inr beamos_config' \<Rightarrow>
                           beamos_loop beamos_date tierversion rest prev'
                             (dict_merge beamos_date_config beamos_config'))))
          else beamos_loop beamos_date tierversion rest prev_beamos_date_entry beamos_date_config)"

definition dict_items :: "pyval \<Rightarrow> py_exn + (string \<times> pyval) list" where
  "dict_items v = (case v of PDict kvs \<Rightarrow> Inr kvs | _ \<Rightarrow> Inl AttributeError)"

definition generate_config_of_beamos :: "pyval \<Rightarrow> date \<Rightarrow> string \<Rightarrow> py_exn + pyval" where
  "generate_config_of_beamos moduleconfig beamos_date tierversion =
     (case py_contains moduleconfig ''beamos_date'' of
        Inl e \<Rightarrow> Inl e
      | Inr has \<Rightarrow>
          if \<not> has then Inr (PDict [])
          else
            (case py_getitem moduleconfig ''beamos_date'' of
               Inl e \<Rightarrow> Inl e
             | Inr dates \<Rightarrow>
                 (case dict_items dates of
                    Inl e \<Rightarrow> Inl e
                  | Inr items \<Rightarrow> beamos_loop beamos_date tierversion items (2000, 1, 1) (PDict []))))"


subsection \<open>\<open>semantic_version\<close>\<close>

text \<open>
  \<open>semantic_version.Version\<close>, as in the releases 2.x of the library: the core is
  \<^verbatim>\<open>major.minor.patch\<close> without leading zeros, followed by an optional prerelease after
  \<open>-\<close> and optional build metadata after \<open>+\<close>, both lists of identifiers separated by
  dots.  Versions are ordered by their precedence key: the three numbers, then the
  prerelease, where a version without prerelease is above every prerelease of the same
  numbers, numeric identifiers are below alphanumeric ones, and a list is above its
  proper prefixes.
\<close>

record semver =
  major :: nat
  minor :: nat
  patch :: nat
  sv_prerelease :: "string list"
  sv_build :: "string list"

definition ident_class :: cclass where
  "ident_class = OneOf ''0123456789abcdefghijklmnopqrstuvwxyzABCDEFGHIJKLMNOPQRSTUVWXYZ.-''"

definition semver_re :: regex where
  "semver_re =
     Seq (Grp ''1'' (Many1 digit)) (Seq (Lit ''.'') (Seq (Grp ''2'' (Many1 digit)) (Seq (Lit ''.'')
    (Seq (Grp ''3'' (Many1 digit))
    (Seq (Opt (Seq (Lit ''-'') (Grp ''4'' (Many1 ident_class))))
    (Seq (Opt (Seq (Lit ''+'') (Grp ''5'' (Many1 ident_class)))) Eos))))))"

fun split_acc :: "string \<Rightarrow> string \<Rightarrow> string list" where
  "split_acc acc [] = [rev acc]"
| "split_acc acc (c # cs) =
     (if c = CHR ''.'' then rev acc # split_acc [] cs else split_acc (c # acc) cs)"

definition split_dot :: "string \<Rightarrow> string list" where
  "split_dot s = split_acc [] s"

definition isdigit :: "string \<Rightarrow> bool" where
  "isdigit s = (s \<noteq> [] \<and> (\<forall>c\<in>set s. in_class digit c))"

definition has_leading_zero :: "string \<Rightarrow> bool" where
  "has_leading_zero v = (v \<noteq> [] \<and> hd v = CHR ''0'' \<and> isdigit v \<and> v \<noteq> ''0'')"

definition validate_identifiers :: "string list \<Rightarrow> bool \<Rightarrow> bool" where
  "validate_identifiers ids allow_leading_zeroes =
     (\<forall>item\<in>set ids. item \<noteq> [] \<and> (allow_leading_zeroes \<or> \<not> has_leading_zero item))"

definition Version :: "string \<Rightarrow> py_exn + semver" where
  "Version version_string =
     (if version_string = [] then Inl ValueError
      else
        (case re_match semver_re version_string of
           None \<Rightarrow> Inl ValueError
         | Some g \<Rightarrow>
             (case (g ''1'', g ''2'', g ''3'') of
                (Some ma, Some mi, Some pa) \<Rightarrow>
                  if has_leading_zero ma \<or> has_leading_zero mi \<or> has_leading_zero pa
                  then Inl ValueError
                  else
                    let pre = (case g ''4'' of None \<Rightarrow> [] | Some p \<Rightarrow> split_dot p);
                        bld = (case g ''5'' of None \<Rightarrow> [] | Some b \<Rightarrow> split_dot b)
                    in if \<not> validate_identifiers pre False then Inl ValueError
                       else if \<not> validate_identifiers bld True then Inl ValueError
                       else Inr \<lparr>major = atoi ma, minor = atoi mi, patch = atoi pa,
                                 sv_prerelease = pre, sv_build = bld\<rparr>
              | _ \<Rightarrow> Inl TypeError)))"

definition ident_key :: "string \<Rightarrow> nat \<times> nat \<times> string" where
  "ident_key part = (if isdigit part then (0, atoi part, []) else (1, 0, part))"

definition precedence_key :: "semver \<Rightarrow> nat \<times> nat \<times> nat \<times> nat \<times> (nat \<times> nat \<times> string) list" where
  "precedence_key v =
     (major v, minor v, patch v,
      (if sv_prerelease v = [] then (1, []) else (0, map ident_key (sv_prerelease v))))"

definition semver_lt :: "semver \<Rightarrow> semver \<Rightarrow> bool" where
  "semver_lt a b = (precedence_key a < precedence_key b)"

text \<open>
  \<^verbatim>\<open>Spec("<1.0.0")\<close>: a version matches when it is below the target in precedence, but not
  when it is a prerelease of the target itself.  \<open>select\<close> returns the greatest of the
  versions that match (the first of them among equals, as \<open>max\<close> does), or None.
\<close>

definition MAJOR_VERSION_CLOUD_CONFIG :: nat where
  "MAJOR_VERSION_CLOUD_CONFIG = 0"

definition spec_target :: semver where
  "spec_target = \<lparr>major = MAJOR_VERSION_CLOUD_CONFIG + 1, minor = 0, patch = 0,
                   sv_prerelease = [], sv_build = []\<rparr>"

definition spec_match :: "semver \<Rightarrow> bool" where
  "spec_match v =
     (if sv_prerelease v \<noteq> [] \<and>
         (major v, minor v, patch v) = (major spec_target, minor spec_target, patch spec_target) \<and>
         sv_prerelease spec_target = []
      then False
      else semver_lt (v\<lparr>sv_build := []\<rparr>) spec_target)"

fun py_max :: "semver \<Rightarrow> semver list \<Rightarrow> semver" where
  "py_max m [] = m"
| "py_max m (x # xs) = py_max (if semver_lt m x then x else m) xs"

definition spec_select :: "semver list \<Rightarrow> semver option" where
  "spec_select versions =
     (case filter spec_match versions of [] \<Rightarrow> None | x # xs \<Rightarrow> Some (py_max x xs))"


subsection \<open>\<open>get_tag_of_github_repo\<close>\<close>

text \<open>
  What the request of the session does: it raises, or it answers with a status and a
  body, of which \<open>json.loads\<close> makes a value or raises.  A log is a list of entries
  (level, text, arguments).
\<close>

datatype http_result = RequestRaises py_exn | Response nat "py_exn + pyval"

type_synonym log = "(level \<times> string \<times> string list) list"

text \<open>
  The comprehension \<^verbatim>\<open>[Version(version.get("name")[1:]) for version in json_data]\<close>:
  iteration over the decoded body, and for each element the method \<open>get\<close> of a
  dictionary, the slice that drops the first character, and the constructor.
\<close>

definition json_iter :: "pyval \<Rightarrow> py_exn + pyval list" where
  "json_iter v =
     (case v of
        PList xs \<Rightarrow> Inr xs
      | PDict kvs \<Rightarrow> Inr (map (\<lambda>kv. PStr (fst kv)) kvs)
      | PStr s \<Rightarrow> Inr (map (\<lambda>c. PStr [c]) s)
      | _ \<Rightarrow> Inl TypeError)"

definition tag_version :: "pyval \<Rightarrow> py_exn + semver" where
  "tag_version v =
     (case v of
        PDict kvs \<Rightarrow>
          (case map_of kvs ''name'' of
             Some (PStr name) \<Rightarrow> Version (drop 1 name)
           | Some (PList xs) \<Rightarrow> (if drop 1 xs = [] then Inl ValueError else Inl TypeError)
           | _ \<Rightarrow> Inl TypeError)
      | _ \<Rightarrow> Inl AttributeError)"

fun tag_versions :: "pyval list \<Rightarrow> py_exn + semver list" where
  "tag_versions [] = Inr []"
| "tag_versions (v # vs) =
     (case tag_version v of
        Inl e \<Rightarrow> Inl e
      | Inr x \<Rightarrow> (case tag_versions vs of Inl e \<Rightarrow> Inl e | Inr xs \<Rightarrow> Inr (x # xs)))"

definition tags_url :: "string \<Rightarrow> string" where
  "tags_url repo = ''https://api.github.com/repos/mrbeam/'' @ repo @ ''/tags''"

text \<open>The body of the \<open>try\<close>; \<open>raise_for_status\<close> raises HTTPError for a status 4xx or 5xx.\<close>

definition get_tag_try :: "http_result \<Rightarrow> (py_exn + semver option) \<times> log" where
  "get_tag_try r =
     (case r of
        RequestRaises e \<Rightarrow> (Inl e, [])
      | Response status text \<Rightarrow>
          if 400 \<le> status \<and> status < 600 then (Inl HTTPError, [])
          else if \<not> (400 \<le> status \<and> status < 600) then
            (case text of
               Inl e \<Rightarrow> (Inl e, [])
             | Inr json_data \<Rightarrow>
                 (case json_iter json_data of
                    Inl e \<Rightarrow> (Inl e, [])
                  | Inr items \<Rightarrow>
                      (case tag_versions items of
                         Inl e \<Rightarrow> (Inl e, [])
                       | Inr versionlist \<Rightarrow> (Inr (spec_select versionlist), []))))
          else (Inr None,
                [(WARNING, ''no valid response for the tag of the update_config file {}'', [])]))"

definition get_tag_of_github_repo ::
    "(string \<Rightarrow> http_result) \<Rightarrow> string \<Rightarrow> (py_exn + semver option) \<times> log" where
  "get_tag_of_github_repo http repo =
     (case get_tag_try (http (tags_url repo)) of
        (Inl e, l) \<Rightarrow>
          if e = MaxRetryError then
            (Inr None,
             l @ [(WARNING, ''timeout while trying to get the tag of the update_config file'', [])])
          else if e = HTTPError then
            (Inr None, l @ [(WARNING, ''server error {}'', [])])
          else if e = ConnectionError \<or> e = ConnectTimeout then
            (Inr None,
             l @ [(WARNING, ''connection error while trying to get the tag of the update_config file'', [])])
          else (Inl e, l)
      | (Inr r, l) \<Rightarrow> (Inr r, l))"



text \<open>An entry of \<open>beamos_date\<close> with its sub-dictionary of the tier, if it has one, merged over it.\<close>

definition tier_merged :: "pyval \<Rightarrow> string \<Rightarrow> pyval" where
  "tier_merged cfg t = (case py_getitem cfg t of Inl e \<Rightarrow> cfg | Inr sub \<Rightarrow> dict_merge cfg sub)"

text \<open>A list of tags with three major versions, as the tags endpoint returns it.\<close>

definition release :: "nat \<Rightarrow> nat \<Rightarrow> nat \<Rightarrow> semver" where
  "release a b c = \<lparr>major = a, minor = b, patch = c, sv_prerelease = [], sv_build = []\<rparr>"

definition mixed_tags :: "pyval list" where
  "mixed_tags =
     [PDict [(''name'', PStr ''v0.1.0'')], PDict [(''name'', PStr ''v1.2.0'')],
      PDict [(''name'', PStr ''v0.3.1'')], PDict [(''name'', PStr ''v2.0.0'')],
      PDict [(''name'', PStr ''v0.3.1-rc.1'')]]"

definition mixed_releases :: "semver list" where
  "mixed_releases =
     [release 0 1 0, release 1 2 0, release 0 3 1, release 2 0 0,
      (release 0 3 1)\<lparr>sv_prerelease := [''rc'', ''1'']\<rparr>]"

definition mixed_http :: "string \<Rightarrow> http_result" where
  "mixed_http url = Response 200 (Inr (PList mixed_tags))"

subsection \<open>The host of the update information\<close>

text \<open>
  What \<open>get_update_information\<close> reads from the plugin object and from the machine is collected in
  one record: the folders, the software tier of the settings, the version of the image, the answer
  of the connectivity checker, the answers of the GitHub API, the cloud configuration that
  \<open>yaml.safe_load (get_file_of_repo_for_tag \<dots>)\<close> yields for a tag (or the exception it raises), the
  version that \<open>get_version_of_pip_module\<close> reports, the versions known to the plugin manager, the
  module constant \<open>GLOBAL_PIP_COMMAND\<close> (which depends on a file of the machine), the outcome of
  opening and writing the update information file (\<open>None\<close>: written; \<open>Some e\<close>: \<open>e\<close> was raised), and the
  recursion limit of the interpreter. What the code does to its surroundings is a list of events.
\<close>

datatype event =
    Logged level string "string list"
  | Notification string
  | VersionCacheCleared

record plugin =
  basefolder :: string
  settings_base_folder :: string
  settings_tier :: string
  beamos_version :: "string \<times> date"
  online :: bool
  http_get :: "string \<Rightarrow> http_result"
  cloud_config_for_tag :: "semver \<Rightarrow> py_exn + pyval"
  pip_module_version :: "pyval \<Rightarrow> pyval \<Rightarrow> pyval"
  plugin_info :: "string \<Rightarrow> pyval option"
  GLOBAL_PIP_COMMAND :: "string option"
  write_update_info :: "string \<Rightarrow> pyval \<Rightarrow> py_exn option"
  recursion_limit :: nat

definition SW_UPDATE_TIERS_DEV :: "string list" where
  "SW_UPDATE_TIERS_DEV = [''ALPHA'', ''DEV'']"

definition SW_UPDATE_TIERS_PROD :: "string list" where
  "SW_UPDATE_TIERS_PROD = [''PROD'', ''BETA'']"

definition SW_UPDATE_TIERS :: "string list" where
  "SW_UPDATE_TIERS = SW_UPDATE_TIERS_DEV @ SW_UPDATE_TIERS_PROD"

definition DEFAULT_REPO_BRANCH_ID :: "(string \<times> string) list" where
  "DEFAULT_REPO_BRANCH_ID =
     [(''PROD'', ''stable''), (''BETA'', ''beta''), (''ALPHA'', ''alpha''), (''DEV'', ''develop'')]"

definition SW_UPDATE_INFO_FILE_NAME :: string where
  "SW_UPDATE_INFO_FILE_NAME = ''update_info.json''"

definition get_tier_by_id :: "string \<Rightarrow> string" where
  "get_tier_by_id tier = (case map_of DEFAULT_REPO_BRANCH_ID tier of None \<Rightarrow> tier | Some b \<Rightarrow> b)"

text \<open>The truth value of a Python value, as \<open>if x:\<close> takes it.\<close>

fun py_truthy :: "pyval \<Rightarrow> bool" where
  "py_truthy PNone = False"
| "py_truthy (PBool b) = b"
| "py_truthy (PInt i) = (i \<noteq> 0)"
| "py_truthy (PStr s) = (s \<noteq> [])"
| "py_truthy (PList xs) = (xs \<noteq> [])"
| "py_truthy (PDict kvs) = (kvs \<noteq> [])"

text \<open>\<open>os.path.join\<close> of two components.\<close>

definition path_join :: "string \<Rightarrow> string \<Rightarrow> string" where
  "path_join a b =
     (if b \<noteq> [] \<and> hd b = CHR ''/'' then b
      else if a = [] \<or> last a = CHR ''/'' then a @ b
      else a @ ''/'' @ b)"

subsection \<open>\<open>str.format\<close> with one keyword argument\<close>

text \<open>
  \<open>s.format(key=val)\<close>: doubled braces stand for themselves, \<open>{key}\<close> is replaced by the value, a
  field with another name raises KeyError, an empty or numbered field IndexError (there is no
  positional argument), a single closing brace or an open field at the end ValueError. Fields with
  a conversion, a format specification or an attribute are not met in the configurations and are
  answered with an exception of their own.
\<close>

definition cons_text :: "string \<Rightarrow> py_exn + string \<Rightarrow> py_exn + string" where
  "cons_text t r = (case r of Inl e \<Rightarrow> Inl e | Inr s \<Rightarrow> Inr (t @ s))"

definition format_field :: "string \<Rightarrow> string \<Rightarrow> string \<Rightarrow> py_exn + string" where
  "format_field key val name =
     (if name = key then Inr val
      else if name = [] \<or> isdigit name then Inl IndexError
      else if \<exists>c\<in>set name. c \<in> set '':!.[{'' then Inl (OtherException ''format field'')
      else Inl KeyError)"

fun format_scan :: "string \<Rightarrow> string \<Rightarrow> string option \<Rightarrow> string \<Rightarrow> py_exn + string" where
  "format_scan key val None [] = Inr []"
| "format_scan key val None (c # cs) =
     (if c = CHR ''{'' then
        (case cs of
           c' # r \<Rightarrow> if c' = CHR ''{'' then cons_text ''{'' (format_scan key val None r)
                     else format_scan key val (Some []) cs
         | [] \<Rightarrow> format_scan key val (Some []) cs)
      else if c = CHR ''}'' then
        (case cs of
           c' # r \<Rightarrow> if c' = CHR ''}'' then cons_text ''}'' (format_scan key val None r)
                     else Inl ValueError
         | [] \<Rightarrow> Inl ValueError)
      else cons_text [c] (format_scan key val None cs))"
| "format_scan key val (Some acc) [] = Inl ValueError"
| "format_scan key val (Some acc) (c # cs) =
     (if c = CHR ''}'' then
        (case format_field key val (rev acc) of
           Inl e \<Rightarrow> Inl e
         | Inr t \<Rightarrow> cons_text t (format_scan key val None cs))
      else format_scan key val (Some (c # acc)) cs)"

definition py_format :: "pyval \<Rightarrow> string \<Rightarrow> string \<Rightarrow> py_exn + pyval" where
  "py_format v key val =
     (case v of
        PStr s \<Rightarrow> (case format_scan key val None s of Inl e \<Rightarrow> Inl e | Inr t \<Rightarrow> Inr (PStr t))
      | _ \<Rightarrow> Inl AttributeError)"

subsection \<open>\<open>_clean_update_config\<close>\<close>

text \<open>
  The keys of \<open>pop_list\<close> that the configuration has are deleted from it. \<open>set(update_config)\<close> of a
  string is a set of characters, none of which is in \<open>pop_list\<close>; of a list it is the set of its
  elements, which raises TypeError for an element that cannot be hashed, and so does deleting a
  string index from a list; a value that cannot be iterated raises TypeError.
\<close>

definition pop_list :: "string list" where
  "pop_list = [''alpha'', ''beta'', ''stable'', ''develop'', ''beamos_date'', ''name'']"

fun unhashable :: "pyval \<Rightarrow> bool" where
  "unhashable (PList xs) = True"
| "unhashable (PDict kvs) = True"
| "unhashable _ = False"

definition clean_update_config :: "pyval \<Rightarrow> py_exn + pyval" where
  "clean_update_config update_config =
     (case update_config of
        PDict kvs \<Rightarrow> Inr (PDict (filter (\<lambda>kv. fst kv \<notin> set pop_list) kvs))
      | PStr s \<Rightarrow> Inr (PStr s)
      | PList xs \<Rightarrow>
          if (\<exists>x\<in>set xs. unhashable x) \<or> (\<exists>k\<in>set pop_list. PStr k \<in> set xs)
          then Inl TypeError else Inr (PList xs)
      | _ \<Rightarrow> Inl TypeError)"

subsection \<open>\<open>_get_curent_version\<close>\<close>

definition bind_exn :: "py_exn + 'a \<Rightarrow> ('a \<Rightarrow> py_exn + 'b) \<Rightarrow> py_exn + 'b" where
  "bind_exn r f = (case r of Inl e \<Rightarrow> Inl e | Inr x \<Rightarrow> f x)"

text \<open>
  The function may add the key \<open>pip_command\<close> to the dictionary it is given, which its caller goes
  on to use: the version is returned together with that dictionary.
\<close>

definition get_curent_version :: "plugin \<Rightarrow> pyval \<Rightarrow> string \<Rightarrow> py_exn + (pyval \<times> pyval)" where
  "get_curent_version plugin input_moduleconfig module_id =
     bind_exn (py_contains input_moduleconfig ''global_pip_command'') (\<lambda>has_global.
     bind_exn (if has_global
               then bind_exn (py_contains input_moduleconfig ''pip_command'') (\<lambda>has_pip.
                    if \<not> has_pip
                    then py_setitem input_moduleconfig ''pip_command''
                           (case GLOBAL_PIP_COMMAND plugin of None \<Rightarrow> PNone | Some c \<Rightarrow> PStr c)
                    else Inr input_moduleconfig)
               else Inr input_moduleconfig) (\<lambda>input_moduleconfig.
     bind_exn (py_contains input_moduleconfig ''pip_command'') (\<lambda>has_pip.
     if has_pip then
       bind_exn (py_getitem input_moduleconfig ''pip_command'') (\<lambda>pip_command.
       bind_exn (py_contains input_moduleconfig ''package_name'') (\<lambda>has_name.
       bind_exn (if has_name then py_getitem input_moduleconfig ''package_name''
                 else Inr (PStr module_id)) (\<lambda>package_name.
       Inr (pip_module_version plugin package_name pip_command, input_moduleconfig))))
     else
       Inr ((case plugin_info plugin module_id of None \<Rightarrow> PNone | Some ver \<Rightarrow> ver),
            input_moduleconfig))))"

subsection \<open>\<open>_generate_config_of_module\<close>\<close>

text \<open>
  The function calls itself for every dependency of the module, which may have dependencies of its
  own. The first argument is the number of nested calls the interpreter still allows; at 0 the call
  raises RecursionError. The debug lines of this function carry no information that a caller
  reads and are left out of the events.
\<close>

fun generate_config_of_module ::
    "nat \<Rightarrow> plugin \<Rightarrow> string \<Rightarrow> pyval \<Rightarrow> pyval \<Rightarrow> string \<Rightarrow> date \<Rightarrow> py_exn + pyval"
  and generate_dependencies ::
    "nat \<Rightarrow> plugin \<Rightarrow> (string \<times> pyval) list \<Rightarrow> pyval \<Rightarrow> pyval \<Rightarrow> string \<Rightarrow> date \<Rightarrow> py_exn + pyval"
where
  "generate_config_of_module 0 plugin module_id input_moduleconfig defaultsettings tier beamos_date =
     Inl RecursionError"
| "generate_config_of_module (Suc depth) plugin module_id input_moduleconfig defaultsettings tier
       beamos_date =
     (if tier \<in> set SW_UPDATE_TIERS then
        (let input_moduleconfig = dict_merge defaultsettings input_moduleconfig;
             tierversion = get_tier_by_id tier in
         bind_exn (py_contains input_moduleconfig tierversion) (\<lambda>has_tier.
         bind_exn (if has_tier
                   then bind_exn (py_getitem input_moduleconfig tierversion)
                          (\<lambda>t. Inr (dict_merge input_moduleconfig t))
                   else Inr input_moduleconfig) (\<lambda>input_moduleconfig.
         bind_exn (generate_config_of_beamos input_moduleconfig beamos_date tierversion) (\<lambda>b.
         let input_moduleconfig = dict_merge input_moduleconfig b in
         bind_exn (py_contains input_moduleconfig ''branch'') (\<lambda>has_branch.
         bind_exn (if has_branch
                   then bind_exn (py_getitem input_moduleconfig ''branch'') (\<lambda>branch.
                        bind_exn (py_contains branch ''{tier}'') (\<lambda>has_placeholder.
                        if has_placeholder
                        then bind_exn (py_format branch ''tier'' (get_tier_by_id tier))
                               (py_setitem input_moduleconfig ''branch'')
                        else Inr input_moduleconfig))
                   else Inr input_moduleconfig) (\<lambda>input_moduleconfig.
         bind_exn (py_contains input_moduleconfig ''update_script'') (\<lambda>has_script.
         bind_exn (if has_script \<and> module_id = ''mrbeam''
                   then bind_exn (py_getitem input_moduleconfig ''update_script'') (\<lambda>script.
                        bind_exn (py_format script ''update_script''
                                    (path_join (path_join (basefolder plugin) ''scripts'')
                                       ''update_script.py''))
                          (py_setitem input_moduleconfig ''update_script''))
                   else Inr input_moduleconfig) (\<lambda>input_moduleconfig.
         bind_exn (get_curent_version plugin input_moduleconfig module_id)
           (\<lambda>(current_version, input_moduleconfig).
         bind_exn (if module_id \<noteq> ''octoprint''
                   then py_setitem input_moduleconfig ''displayVersion''
                          (if py_truthy current_version then current_version else PStr ''-'')
                   else Inr input_moduleconfig) (\<lambda>input_moduleconfig.
         bind_exn (py_contains input_moduleconfig ''name'') (\<lambda>has_name.
         bind_exn (if has_name
                   then bind_exn (py_getitem input_moduleconfig ''name'')
                          (py_setitem input_moduleconfig ''displayName'')
                   else Inr input_moduleconfig) (\<lambda>input_moduleconfig.
         bind_exn (clean_update_config input_moduleconfig) (\<lambda>input_moduleconfig.
         bind_exn (py_contains input_moduleconfig ''dependencies'') (\<lambda>has_deps.
         if has_deps
         then bind_exn (py_getitem input_moduleconfig ''dependencies'') (\<lambda>deps.
              bind_exn (dict_items deps) (\<lambda>items.
              generate_dependencies depth plugin items input_moduleconfig defaultsettings tier
                beamos_date))
         else Inr input_moduleconfig))))))))))))))
      else Inr PNone)"
| "generate_dependencies depth plugin [] input_moduleconfig defaultsettings tier beamos_date =
     Inr input_moduleconfig"
| "generate_dependencies depth plugin ((dependencie_name, dependencie_config) # rest)
       input_moduleconfig defaultsettings tier beamos_date =
     bind_exn (generate_config_of_module depth plugin dependencie_name dependencie_config
                 defaultsettings tier beamos_date) (\<lambda>generated.
     bind_exn (py_setitem2 input_moduleconfig ''dependencies'' dependencie_name generated)
       (\<lambda>input_moduleconfig.
     generate_dependencies depth plugin rest input_moduleconfig defaultsettings tier beamos_date))"

subsection \<open>\<open>_set_info_from_cloud_config\<close>\<close>

text \<open>The loop over \<open>modules.items()\<close>, which fills \<open>sw_update_config\<close>.\<close>

fun modules_loop ::
    "plugin \<Rightarrow> (string \<times> pyval) list \<Rightarrow> pyval \<Rightarrow> string \<Rightarrow> date \<Rightarrow> (string \<times> pyval) list
     \<Rightarrow> py_exn + (string \<times> pyval) list" where
  "modules_loop plugin [] defaultsettings tier beamos_date sw_update_config = Inr sw_update_config"
| "modules_loop plugin ((module_id, module) # rest) defaultsettings tier beamos_date sw_update_config =
     (if tier \<in> set SW_UPDATE_TIERS then
        bind_exn (generate_config_of_module (recursion_limit plugin) plugin module_id
                    (dict_merge defaultsettings module) defaultsettings tier beamos_date)
          (\<lambda>generated.
             modules_loop plugin rest defaultsettings tier beamos_date
               (alist_set module_id generated sw_update_config))
      else modules_loop plugin rest defaultsettings tier beamos_date sw_update_config)"

text \<open>
  Modelled from the spec: the decorator \<open>logExceptions\<close> is imported from
  \<^verbatim>\<open>octoprint_mrbeam.util\<close>, which is not among the sources. An exception that leaves the decorated
  function is taken to be logged and to propagate (the specification routes the unexpected
  exceptions of this function to the fallback document of \<open>get_update_information\<close>); a value that
  the function returns passes through.
\<close>

definition logExceptions :: "(py_exn + 'a) \<times> event list \<Rightarrow> (py_exn + 'a) \<times> event list" where
  "logExceptions r =
     (case r of
        (Inl e, ev) \<Rightarrow> (Inl e, ev @ [Logged (EXCEPTION e) [] []])
      | (Inr v, ev) \<Rightarrow> (Inr v, ev))"

text \<open>
  The body of the function: the result (or the exception) and the events. A cloud configuration
  that is true and no dictionary has no \<open>get\<close>: AttributeError.
\<close>

definition set_info_body ::
    "plugin \<Rightarrow> string \<Rightarrow> date \<Rightarrow> pyval \<Rightarrow> (py_exn + pyval) \<times> event list" where
  "set_info_body plugin tier beamos_date cloud_config =
     (if py_truthy cloud_config then
        (let debug1 = [Logged DEBUG ''update_info {}'' []] in
         case cloud_config of
           PDict cc \<Rightarrow>
             (let defaultsettings = (case map_of cc ''default'' of None \<Rightarrow> PNone | Some d \<Rightarrow> d) in
              case bind_exn (py_getitem cloud_config ''modules'') (\<lambda>modules.
                   bind_exn (dict_items modules) (\<lambda>items.
                   modules_loop plugin items defaultsettings tier beamos_date [])) of
                Inl e \<Rightarrow> (Inl e, debug1)
              | Inr sw_update_config \<Rightarrow>
                  (let debug2 = debug1 @ [Logged DEBUG ''sw_update_config {}'' []];
                       sw_update_file_path =
                         path_join (settings_base_folder plugin) SW_UPDATE_INFO_FILE_NAME in
                   case write_update_info plugin sw_update_file_path (PDict sw_update_config) of
                     None \<Rightarrow> (Inr (PDict sw_update_config), debug2)
                   | Some e \<Rightarrow>
                       if e = IOError \<or> e = TypeError then
                         (Inr PNone,
                          debug2 @ [Logged ERROR ''cannot create update info file'' [],
                                    Notification ''write_error_update_info_file_err''])
                       else (Inl e, debug2)))
         | _ \<Rightarrow> (Inl AttributeError, debug1))
      else (Inr PNone, []))"

definition set_info_from_cloud_config ::
    "plugin \<Rightarrow> string \<Rightarrow> date \<Rightarrow> pyval \<Rightarrow> (py_exn + pyval) \<times> event list" where
  "set_info_from_cloud_config plugin tier beamos_date cloud_config =
     logExceptions (set_info_body plugin tier beamos_date cloud_config)"

subsection \<open>\<open>get_update_information\<close>\<close>

definition fallback_module :: "string \<Rightarrow> pyval" where
  "fallback_module name =
     PDict [(''name'', PStr name), (''type'', PStr ''github_commit''), (''user'', PStr []),
            (''repo'', PStr []), (''pip'', PStr [])]"

text \<open>The dictionary literal of the last statement of \<open>get_update_information\<close>.\<close>

definition FALLBACK_CONFIG :: pyval where
  "FALLBACK_CONFIG =
     PDict [(''default'', PDict []),
            (''modules'', PDict
               [(''mrbeam'', fallback_module '' MrBeam Plugin''),
                (''mrbeamdoc'', fallback_module ''Mr Beam Documentation''),
                (''netconnectd'', fallback_module ''OctoPrint-Netconnectd Plugin''),
                (''findmymrbeam'', fallback_module ''OctoPrint-FindMyMrBeam'')])]"

definition logged :: "log \<Rightarrow> event list" where
  "logged l = map (\<lambda>(lvl, msg, args). Logged lvl msg args) l"

text \<open>
  The \<open>try\<close> block returns what \<open>_set_info_from_cloud_config\<close> returns for a cloud configuration that
  is true; in every other case, and after any exception, the function ends with the call on the
  fallback dictionary. The settings, the device information, the notification system and the plugin
  manager are taken to answer without an exception.
\<close>

definition get_update_information :: "plugin \<Rightarrow> (py_exn + pyval) \<times> event list" where
  "get_update_information plugin =
     (let tier = settings_tier plugin;
          beamos_date = snd (beamos_version plugin);
          start = [Logged INFO ''SoftwareUpdate using tier: {tier} {beamos_date}'' [tier]];
          fallback = (\<lambda>ev. case set_info_from_cloud_config plugin tier beamos_date FALLBACK_CONFIG of
                             (r, ev') \<Rightarrow> (r, ev @ ev'));
          no_cloud = (\<lambda>ev. fallback (ev @ [Notification ''missing_updateinformation_info'',
                                            VersionCacheCleared]));
          caught = (\<lambda>ev e. fallback (ev @ [Logged (EXCEPTION e) [] []]))
      in
      if online plugin then
        (case get_tag_of_github_repo (http_get plugin) ''beamos_config'' of
           (Inl e, l) \<Rightarrow> caught (start @ logged l) e
         | (Inr None, l) \<Rightarrow> no_cloud (start @ logged l)
         | (Inr (Some config_tag), l) \<Rightarrow>
             (case cloud_config_for_tag plugin config_tag of
                Inl e \<Rightarrow> caught (start @ logged l) e
              | Inr cloud_config \<Rightarrow>
                  if py_truthy cloud_config then
                    (case set_info_from_cloud_config plugin tier beamos_date cloud_config of
                       (Inl e, ev) \<Rightarrow> caught (start @ logged l @ ev) e
                     | (Inr r, ev) \<Rightarrow> (Inr r, start @ logged l @ ev))
                  else no_cloud (start @ logged l)))
      else no_cloud (start @ [Logged WARNING ''no internet connection'' []]))"

text \<open>Every attempt to write the update information file ends in IOError or TypeError.\<close>

definition write_fails :: "plugin \<Rightarrow> bool" where
  "write_fails plugin =
     (\<forall>path cfg. write_update_info plugin path cfg = Some IOError \<or>
                 write_update_info plugin path cfg = Some TypeError)"

text \<open>The records that the fallback dictionary yields for its four modules.\<close>

definition display_version :: "plugin \<Rightarrow> string \<Rightarrow> pyval" where
  "display_version plugin module_id =
     (let v = (case plugin_info plugin module_id of None \<Rightarrow> PNone | Some ver \<Rightarrow> ver)
      in if py_truthy v then v else PStr ''-'')"

definition fallback_record :: "plugin \<Rightarrow> string \<Rightarrow> string \<Rightarrow> pyval" where
  "fallback_record plugin module_id name =
     PDict [(''type'', PStr ''github_commit''), (''user'', PStr []), (''repo'', PStr []),
            (''pip'', PStr []), (''displayVersion'', display_version plugin module_id),
            (''displayName'', PStr name)]"

definition fallback_records :: "plugin \<Rightarrow> (string \<times> pyval) list" where
  "fallback_records plugin =
     [(''mrbeam'', fallback_record plugin ''mrbeam'' '' MrBeam Plugin''),
      (''mrbeamdoc'', fallback_record plugin ''mrbeamdoc'' ''Mr Beam Documentation''),
      (''netconnectd'', fallback_record plugin ''netconnectd'' ''OctoPrint-Netconnectd Plugin''),
      (''findmymrbeam'', fallback_record plugin ''findmymrbeam'' ''OctoPrint-FindMyMrBeam'')]"

section \<open>Groups of a pattern\<close>



section \<open>Entries of the site-packages directory\<close>





section \<open>Example worlds\<close>


text \<open>The migration object of a plugin 0.1.20 started over the settings of an older one.\<close>

definition upgrade_to_0_1_20 :: "string \<Rightarrow> string \<Rightarrow> migration" where
  "upgrade_to_0_1_20 prev series =
     \<lparr>version_previous = Some prev, version_current = ''0.1.20'', device_series = series\<rparr>"




text \<open>The profile that \<open>set_lasercutterPorfile_2C\<close> makes of the fields of the default profile.\<close>

definition profile_2C :: "(string \<times> pyval) list \<Rightarrow> pyval" where
  "profile_2C kvs =
     PDict (alist_set ''legacy'' (PDict [(''job_done_home_position_x'', PInt 250)])
           (alist_set ''model'' (PStr ''C'')
           (alist_set ''name'' (PStr ''MrBeam2'')
           (alist_set ''id'' (PStr ''MrBeam2C'') kvs))))"

text \<open>The fields of a generic profile, and a device that has this profile only.\<close>

definition generic_fields :: "(string \<times> pyval) list" where
  "generic_fields =
     [(''id'', PStr ''my_default''), (''name'', PStr ''Dummy Laser''), (''model'', PStr ''X''),
      (''laser'', PDict [(''max_temperature'', PInt 55)]),
      (''dust'', PDict [(''auto_mode_time'', PInt 300)])]"

definition generic_world :: world where
  "generic_world =
     \<lparr>settings_version = Some ''0.1.12'',
      profiles = [''my_default'' \<mapsto> PDict generic_fields],
      default_id = ''my_default'',
      site_packages = Some [(''Mr_Beam-0.1.10.dist'', Directory), (''OctoPrint-1.3.6.dist'', Directory),
                            (''Mr_Beam-0.1.20.dist'', Directory)],
      shell = (\<lambda>n cmd. Exited 0 []), executed = [], log_entries = []\<rparr>"

text \<open>The same device with a profile \<open>MrBeam2C\<close> on it that is not the default.\<close>

definition shipped_2C_fields :: "(string \<times> pyval) list" where
  "shipped_2C_fields =
     [(''id'', PStr ''MrBeam2C''), (''name'', PStr ''Shipped''), (''model'', PStr ''C''),
      (''laser'', PDict [(''intensity_factor'', PInt 13)])]"

definition shipped_2C_world :: world where
  "shipped_2C_world =
     generic_world\<lparr>profiles := [''my_default'' \<mapsto> PDict generic_fields,
                                  ''MrBeam2C'' \<mapsto> PDict shipped_2C_fields]\<rparr>"

text \<open>
  A device without a connection whose base folder cannot be written: every attempt to write the
  update information file raises IOError.
\<close>

definition offline_plugin :: plugin where
  "offline_plugin =
     \<lparr>basefolder = ''/home/pi/oprint/lib/python2.7/site-packages/octoprint_mrbeam'',
      settings_base_folder = ''/home/pi/.octoprint'',
      settings_tier = ''PROD'',
      beamos_version = (''PROD'', (2021, 12, 1)),
      online = False,
      http_get = (\<lambda>url. RequestRaises ConnectionError),
      cloud_config_for_tag = (\<lambda>tag. Inl IOError),
      pip_module_version = (\<lambda>package_name pip_command. PNone),
      plugin_info = (\<lambda>module_id. if module_id = ''mrbeam'' then Some (PStr ''0.10.3'') else None),
      GLOBAL_PIP_COMMAND = None,
      write_update_info = (\<lambda>path cfg. Some IOError),
      recursion_limit = 1000\<rparr>"

section \<open>Properties\<close>

lemmas io_defs = io_ret_def io_raise_def io_bind_def io_then_def io_lift_def io_try_def logger_def

subsection \<open>The shell helper\<close>



subsection \<open>Monad laws\<close>

lemma io_bind_ret [simp]: "io_bind (io_ret x) f = f x"
  by (rule ext) (simp add: io_bind_def io_ret_def)

lemma io_then_ret [simp]: "io_then (io_ret ()) n = n"
  by (simp add: io_then_def)

subsection \<open>Strict versions\<close>





text \<open>The comparison is that of the numeric version followed by a rank of the prerelease.\<close>

lemma sv_cmp_alt:
  "sv_cmp a b =
     py_cmp (version a, case prerelease a of None \<Rightarrow> (1::nat, CHR ''a'', 0::nat) | Some (l, n) \<Rightarrow> (0, l, n))
            (version b, case prerelease b of None \<Rightarrow> (1, CHR ''a'', 0) | Some (l, n) \<Rightarrow> (0, l, n))"
  by (cases "version a"; cases "version b"; cases "prerelease a"; cases "prerelease b")
     (auto simp: sv_cmp_def py_cmp_def Let_def less_prod_def less_eq_prod_def)




lemma sv_total: "sv_lt a b \<or> sv_eq a b \<or> sv_lt b a"
  unfolding sv_lt_def sv_eq_def sv_cmp_alt py_cmp_def by (auto split: if_splits)










subsection \<open>\<open>_compare_versions\<close>\<close>





subsection \<open>\<open>is_migration_required\<close>\<close>




subsection \<open>\<open>run\<close>\<close>


subsection \<open>The default profile of series 2C\<close>

lemma map_of_alist_set:
  "map_of (alist_set k v kvs) k' = (if k' = k then Some v else map_of kvs k')"
  by (induction kvs) auto

lemma alist_set_twice: "alist_set k v (alist_set k v' kvs) = alist_set k v kvs"
  by (induction kvs) auto

lemma set_2C_new:
  assumes "profiles w ''MrBeam2C'' = None" and "profiles w (default_id w) = Some (PDict kvs)"
  shows "set_lasercutterPorfile_2C w =
     (Inr (), w\<lparr>profiles := (profiles w)(''MrBeam2C'' \<mapsto> profile_2C kvs),
                default_id := ''MrBeam2C'',
                log_entries := log_entries w @
                  [(INFO, ''set_lasercutterPorfile_2C() Created lasercutterProfile %s and set as default. Content: %s'',
                    [''MrBeam2C''])]\<rparr>)"
  using assms
  by (simp add: set_lasercutterPorfile_2C_def Let_def io_defs lcpm_exists_def lcpm_get_default_def
        lcpm_save_def py_setitem2_def map_of_alist_set alist_set_twice profile_2C_def)

lemma set_2C_existing:
  assumes "profiles w ''MrBeam2C'' = Some q"
  shows "set_lasercutterPorfile_2C w =
     (Inr (), w\<lparr>default_id := ''MrBeam2C'',
                log_entries := log_entries w @
                  [(INFO, ''set_lasercutterPorfile_2C() Set lasercutterProfile %s as default.'',
                    [''MrBeam2C''])]\<rparr>)"
  using assms
  by (simp add: set_lasercutterPorfile_2C_def Let_def io_defs lcpm_exists_def lcpm_set_default_def)

lemma profile_2C_fields:
  "py_getitem (profile_2C kvs) k =
     (if k = ''legacy'' then Inr (PDict [(''job_done_home_position_x'', PInt 250)])
      else if k = ''model'' then Inr (PStr ''C'')
      else if k = ''name'' then Inr (PStr ''MrBeam2'')
      else if k = ''id'' then Inr (PStr ''MrBeam2C'')
      else py_getitem (PDict kvs) k)"
  by (simp add: profile_2C_def map_of_alist_set)

lemma set_profile_2C:
  assumes "profiles w (default_id w) = Some p" and "py_getitem p ''id'' = Inr (PStr ''my_default'')"
    and "device_series self = ''2C''"
  shows "set_lasercutterProfile self w =
     io_then (logger INFO ''set_lasercutterPorfile() Setting lasercutterProfile for device %s'' [''2C''])
       (io_then set_lasercutterPorfile_2C (save_current_version self)) w"
  using assms
  by (simp add: set_lasercutterProfile_def io_defs lcpm_get_default_def)

text \<open>
  Claim C5.  On a device of series 2C whose default profile is the generic one,
  \<open>set_lasercutterProfile\<close> runs \<open>set_lasercutterPorfile_2C\<close> (and then stores the plugin
  version).  When no profile \<open>MrBeam2C\<close> exists, the fields of the current default
  profile are copied, \<open>id\<close>, \<open>name\<close>, \<open>model\<close> and \<open>legacy\<close> are set to MrBeam2C, MrBeam2, C
  and \<open>{job_done_home_position_x: 250}\<close>, every other field is kept, and the result is
  saved under \<open>MrBeam2C\<close> and made the default; the other profiles stay as they are.
  When a profile \<open>MrBeam2C\<close> exists, it becomes the default and no profile changes.
\<close>

theorem set_lasercutterPorfile_2C_spec:
  "(profiles w ''MrBeam2C'' = None \<longrightarrow> profiles w (default_id w) = Some (PDict kvs) \<longrightarrow>
      set_lasercutterPorfile_2C w =
        (Inr (), w\<lparr>profiles := (profiles w)(''MrBeam2C'' \<mapsto> profile_2C kvs),
                   default_id := ''MrBeam2C'',
                   log_entries := log_entries w @
                     [(INFO, ''set_lasercutterPorfile_2C() Created lasercutterProfile %s and set as default. Content: %s'',
                       [''MrBeam2C''])]\<rparr>))
   \<and> py_getitem (profile_2C kvs) ''id'' = Inr (PStr ''MrBeam2C'')
   \<and> py_getitem (profile_2C kvs) ''name'' = Inr (PStr ''MrBeam2'')
   \<and> py_getitem (profile_2C kvs) ''model'' = Inr (PStr ''C'')
   \<and> py_getitem (profile_2C kvs) ''legacy'' = Inr (PDict [(''job_done_home_position_x'', PInt 250)])
   \<and> (k \<notin> {''id'', ''name'', ''model'', ''legacy''} \<longrightarrow>
        py_getitem (profile_2C kvs) k = py_getitem (PDict kvs) k)
   \<and> (profiles w ''MrBeam2C'' = Some q \<longrightarrow>
        set_lasercutterPorfile_2C w =
          (Inr (), w\<lparr>default_id := ''MrBeam2C'',
                     log_entries := log_entries w @
                       [(INFO, ''set_lasercutterPorfile_2C() Set lasercutterProfile %s as default.'',
                         [''MrBeam2C''])]\<rparr>))
   \<and> (profiles w (default_id w) = Some p \<longrightarrow> py_getitem p ''id'' = Inr (PStr ''my_default'') \<longrightarrow>
        device_series self = ''2C'' \<longrightarrow>
        set_lasercutterProfile self w =
          io_then (logger INFO ''set_lasercutterPorfile() Setting lasercutterProfile for device %s''
                     [''2C''])
            (io_then set_lasercutterPorfile_2C (save_current_version self)) w)"
proof (intro conjI impI)
  assume "profiles w ''MrBeam2C'' = None" and "profiles w (default_id w) = Some (PDict kvs)"
  then show "set_lasercutterPorfile_2C w =
        (Inr (), w\<lparr>profiles := (profiles w)(''MrBeam2C'' \<mapsto> profile_2C kvs),
                   default_id := ''MrBeam2C'',
                   log_entries := log_entries w @
                     [(INFO, ''set_lasercutterPorfile_2C() Created lasercutterProfile %s and set as default. Content: %s'',
                       [''MrBeam2C''])]\<rparr>)"
    by (rule set_2C_new)
next
  assume "k \<notin> {''id'', ''name'', ''model'', ''legacy''}"
  then show "py_getitem (profile_2C kvs) k = py_getitem (PDict kvs) k"
    by (simp add: profile_2C_fields)
next
  assume "profiles w ''MrBeam2C'' = Some q"
  then show "set_lasercutterPorfile_2C w =
          (Inr (), w\<lparr>default_id := ''MrBeam2C'',
                     log_entries := log_entries w @
                       [(INFO, ''set_lasercutterPorfile_2C() Set lasercutterProfile %s as default.'',
                         [''MrBeam2C''])]\<rparr>)"
    by (rule set_2C_existing)
next
  assume "profiles w (default_id w) = Some p" and "py_getitem p ''id'' = Inr (PStr ''my_default'')"
    and "device_series self = ''2C''"
  then show "set_lasercutterProfile self w =
          io_then (logger INFO ''set_lasercutterPorfile() Setting lasercutterProfile for device %s''
                     [''2C''])
            (io_then set_lasercutterPorfile_2C (save_current_version self)) w"
    by (rule set_profile_2C)
qed (simp_all add: profile_2C_fields)

theorem set_lasercutterPorfile_2C_spec_witness:
  "set_lasercutterPorfile_2C generic_world =
     (Inr (), generic_world\<lparr>
        profiles := [''my_default'' \<mapsto> PDict generic_fields,
                     ''MrBeam2C'' \<mapsto> profile_2C generic_fields],
        default_id := ''MrBeam2C'',
        log_entries :=
          [(INFO, ''set_lasercutterPorfile_2C() Created lasercutterProfile %s and set as default. Content: %s'',
            [''MrBeam2C''])]\<rparr>)
   \<and> py_getitem (profile_2C generic_fields) ''dust'' = Inr (PDict [(''auto_mode_time'', PInt 300)])
   \<and> set_lasercutterPorfile_2C shipped_2C_world =
       (Inr (), shipped_2C_world\<lparr>
          default_id := ''MrBeam2C'',
          log_entries :=
            [(INFO, ''set_lasercutterPorfile_2C() Set lasercutterProfile %s as default.'',
              [''MrBeam2C''])]\<rparr>)
   \<and> set_lasercutterProfile (upgrade_to_0_1_20 ''0.1.12'' ''2C'') generic_world =
       io_then (logger INFO ''set_lasercutterPorfile() Setting lasercutterProfile for device %s''
                  [''2C''])
         (io_then set_lasercutterPorfile_2C
            (save_current_version (upgrade_to_0_1_20 ''0.1.12'' ''2C''))) generic_world"
  using set_lasercutterPorfile_2C_spec
          [of generic_world generic_fields "''dust''" "PDict shipped_2C_fields" "PDict generic_fields"
              "upgrade_to_0_1_20 ''0.1.12'' ''2C''"]
        set_lasercutterPorfile_2C_spec
          [of shipped_2C_world generic_fields "''dust''" "PDict shipped_2C_fields" "PDict generic_fields"
              "upgrade_to_0_1_20 ''0.1.12'' ''2C''"]
  by (simp add: generic_world_def shipped_2C_world_def generic_fields_def upgrade_to_0_1_20_def
        profile_2C_fields)

subsection \<open>\<open>delete_egg_dir_leftovers\<close>\<close>


























subsection \<open>\<open>get_tag_of_github_repo\<close>\<close>

lemma spec_match_major: "spec_match v \<longleftrightarrow> major v < MAJOR_VERSION_CLOUD_CONFIG + 1"
  by (auto simp: spec_match_def spec_target_def semver_lt_def precedence_key_def
        MAJOR_VERSION_CLOUD_CONFIG_def less_prod_def less_eq_prod_def)

lemma py_max_in: "py_max m xs \<in> set (m # xs)"
  by (induction xs arbitrary: m) auto

lemma py_max_ge_start: "\<not> semver_lt (py_max m xs) m"
proof (induction xs arbitrary: m)
  case Nil show ?case by (simp add: semver_lt_def)
next
  case (Cons x xs)
  show ?case
  proof (cases "semver_lt m x")
    case True
    with Cons[of x] show ?thesis by (auto simp: semver_lt_def)
  next
    case False
    with Cons[of m] show ?thesis by simp
  qed
qed

lemma py_max_greatest: "u \<in> set (m # xs) \<Longrightarrow> \<not> semver_lt (py_max m xs) u"
proof (induction xs arbitrary: m)
  case Nil then show ?case by (simp add: semver_lt_def)
next
  case (Cons x xs)
  let ?m = "if semver_lt m x then x else m"
  from Cons.prems consider "u = m" | "u = x" | "u \<in> set xs" by auto
  then show ?case
  proof cases
    case 1
    have "\<not> semver_lt (py_max ?m xs) ?m" by (rule py_max_ge_start)
    then show ?thesis using 1 by (auto simp: semver_lt_def split: if_splits)
  next
    case 2
    have "\<not> semver_lt (py_max ?m xs) ?m" by (rule py_max_ge_start)
    then show ?thesis using 2 by (auto simp: semver_lt_def split: if_splits)
  next
    case 3
    then have "u \<in> set (?m # xs)" by simp
    from Cons.IH[OF this] show ?thesis by simp
  qed
qed

lemma spec_select_max:
  "(case spec_select vs of
      None \<Rightarrow> \<forall>v\<in>set vs. \<not> major v < MAJOR_VERSION_CLOUD_CONFIG + 1
    | Some m \<Rightarrow> m \<in> set vs \<and> major m < MAJOR_VERSION_CLOUD_CONFIG + 1 \<and>
               (\<forall>u\<in>set vs. major u < MAJOR_VERSION_CLOUD_CONFIG + 1 \<longrightarrow> \<not> semver_lt m u))"
proof (cases "filter spec_match vs")
  case Nil
  then have "\<forall>v\<in>set vs. \<not> spec_match v" by (simp add: filter_empty_conv)
  with Nil show ?thesis by (simp add: spec_select_def spec_match_major)
next
  case (Cons x xs)
  let ?m = "py_max x xs"
  have s: "spec_select vs = Some ?m" using Cons by (simp add: spec_select_def)
  have "?m \<in> set (filter spec_match vs)" using py_max_in[of x xs] Cons by simp
  then have 1: "?m \<in> set vs" "spec_match ?m" by auto
  have 2: "\<not> semver_lt ?m u" if "u \<in> set vs" "spec_match u" for u
  proof -
    from that have "u \<in> set (filter spec_match vs)" by simp
    then have "u \<in> set (x # xs)" using Cons by simp
    then show ?thesis by (rule py_max_greatest)
  qed
  show ?thesis unfolding s using 1 2 by (simp add: spec_match_major)
qed

lemma get_tag_failures:
  assumes "http (tags_url repo) = RequestRaises e"
    and "e \<in> {MaxRetryError, ConnectionError, ConnectTimeout}"
  shows "fst (get_tag_of_github_repo http repo) = Inr None"
  using assms by (auto simp: get_tag_of_github_repo_def get_tag_try_def)

lemma get_tag_http_error:
  assumes "http (tags_url repo) = Response status body" and "400 \<le> status" and "status < 600"
  shows "fst (get_tag_of_github_repo http repo) = Inr None"
  using assms by (simp add: get_tag_of_github_repo_def get_tag_try_def)

lemma get_tag_select:
  assumes "http (tags_url repo) = Response status (Inr (PList tags))" and "status < 400"
    and "tag_versions tags = Inr vs"
  shows "fst (get_tag_of_github_repo http repo) = Inr (spec_select vs)"
  using assms by (simp add: get_tag_of_github_repo_def get_tag_try_def json_iter_def)

text \<open>
  Claim C7.  \<open>get_tag_of_github_repo\<close> returns None, and raises nothing, when the request
  raises MaxRetryError (the retries are exhausted) or a connection error, and when the
  answer has a status 4xx or 5xx.  When the answer is a list of tags whose names are
  versions, it returns the result of \<open>select\<close>: the greatest version whose major number is
  below \<open>MAJOR_VERSION_CLOUD_CONFIG + 1\<close>, and None when there is no such version.
\<close>

theorem get_tag_of_github_repo_spec:
  "(http (tags_url repo) = RequestRaises e \<longrightarrow>
      e \<in> {MaxRetryError, ConnectionError, ConnectTimeout} \<longrightarrow>
      fst (get_tag_of_github_repo http repo) = Inr None)
   \<and> (http (tags_url repo) = Response status body \<longrightarrow> 400 \<le> status \<longrightarrow> status < 600 \<longrightarrow>
      fst (get_tag_of_github_repo http repo) = Inr None)
   \<and> (http (tags_url repo) = Response status (Inr (PList tags)) \<longrightarrow> status < 400 \<longrightarrow>
      tag_versions tags = Inr vs \<longrightarrow>
      fst (get_tag_of_github_repo http repo) = Inr (spec_select vs) \<and>
      (case spec_select vs of
         None \<Rightarrow> \<forall>v\<in>set vs. \<not> major v < MAJOR_VERSION_CLOUD_CONFIG + 1
       | Some m \<Rightarrow> m \<in> set vs \<and> major m < MAJOR_VERSION_CLOUD_CONFIG + 1 \<and>
               (\<forall>u\<in>set vs. major u < MAJOR_VERSION_CLOUD_CONFIG + 1 \<longrightarrow> \<not> semver_lt m u)))"
  using get_tag_failures get_tag_http_error get_tag_select spec_select_max
  by (intro conjI impI) blast+

lemmas semver_eval = Version_def re_match_def semver_re_def digit_def ident_class_def atoi_def
  has_leading_zero_def isdigit_def validate_identifiers_def split_dot_def

lemma mixed_versions:
  "tag_versions mixed_tags = Inr mixed_releases"
  by (simp add: mixed_tags_def mixed_releases_def tag_version_def semver_eval release_def)

lemma mixed_select:
  "spec_select mixed_releases = Some (release 0 3 1)"
  by (simp add: mixed_releases_def spec_select_def spec_match_major MAJOR_VERSION_CLOUD_CONFIG_def release_def
        semver_lt_def precedence_key_def less_prod_def less_eq_prod_def)

theorem get_tag_of_github_repo_spec_witness:
  "fst (get_tag_of_github_repo (\<lambda>url. RequestRaises MaxRetryError) ''beamos_config'') = Inr None
   \<and> fst (get_tag_of_github_repo (\<lambda>url. RequestRaises ConnectionError) ''beamos_config'') = Inr None
   \<and> fst (get_tag_of_github_repo (\<lambda>url. Response 500 (Inl ValueError)) ''beamos_config'') = Inr None
   \<and> fst (get_tag_of_github_repo mixed_http ''beamos_config'') = Inr (Some (release 0 3 1))"
  using get_tag_of_github_repo_spec
          [of "\<lambda>url. RequestRaises MaxRetryError" "''beamos_config''" MaxRetryError 0 "Inl ValueError"
              "[]" "[]"]
        get_tag_of_github_repo_spec
          [of "\<lambda>url. RequestRaises ConnectionError" "''beamos_config''" ConnectionError 0 "Inl ValueError"
              "[]" "[]"]
        get_tag_of_github_repo_spec
          [of "\<lambda>url. Response 500 (Inl ValueError)" "''beamos_config''" MaxRetryError 500 "Inl ValueError"
              "[]" "[]"]
        get_tag_of_github_repo_spec
          [of mixed_http "''beamos_config''" MaxRetryError 200 "Inr (PList mixed_tags)" mixed_tags
              mixed_releases]
  by (simp add: mixed_http_def mixed_versions mixed_select)

subsection \<open>\<open>_generate_config_of_beamos\<close>\<close>

lemmas date_eval = strptime_ymd_def re_match_end_def ymd_re_def digit_def atoi_def
  int_of_digits_def days_in_month_def is_leap_def

lemma date_2020_01_01: "strptime_ymd ''2020-01-01'' = Inr (2020, 1, 1)"
  by (simp add: date_eval)

lemma date_2021_06_01: "strptime_ymd ''2021-06-01'' = Inr (2021, 6, 1)"
  by (simp add: date_eval)

lemma beamos_step:
  assumes "strptime_ymd date = Inr d" and "d \<le> beamos_date" and "prev < beamos_date"
  shows "beamos_loop beamos_date t ((date, PDict a) # rest) prev acc =
           beamos_loop beamos_date t rest d (dict_merge acc (tier_merged (PDict a) t))"
  using assms by (simp add: tier_merged_def split: option.splits)

lemma beamos_two:
  assumes "strptime_ymd d1 = Inr x1" and "strptime_ymd d2 = Inr x2"
    and "x1 \<le> D" and "x2 \<le> D" and "p < D" and "x1 < D"
  shows "beamos_loop D t [(d1, PDict a), (d2, PDict b)] p acc =
           Inr (dict_merge (dict_merge acc (tier_merged (PDict a) t)) (tier_merged (PDict b) t))"
proof -
  have "beamos_loop D t [(d1, PDict a), (d2, PDict b)] p acc =
          beamos_loop D t [(d2, PDict b)] x1 (dict_merge acc (tier_merged (PDict a) t))"
    using assms(1,3,5) by (rule beamos_step)
  also have "\<dots> = beamos_loop D t [] x2
          (dict_merge (dict_merge acc (tier_merged (PDict a) t)) (tier_merged (PDict b) t))"
    using assms(2,4,6) by (rule beamos_step)
  finally show ?thesis by simp
qed

lemma generate_items:
  assumes "map_of mc ''beamos_date'' = Some (PDict items)"
  shows "generate_config_of_beamos (PDict mc) D t = beamos_loop D t items (2000, 1, 1) (PDict [])"
  using assms by (simp add: generate_config_of_beamos_def dict_items_def del: beamos_loop.simps)

text \<open>
  Claim C8.  With the entries of 2020-01-01 and 2021-06-01 and the image date
  2021-12-01, both entries pass the test of the loop, in either order of iteration, and
  the result is the merge of the first entry iterated and then of the second over it: the
  entries accumulate in the order of iteration.
\<close>

theorem generate_config_of_beamos_accumulates:
  "(map_of mc ''beamos_date'' =
       Some (PDict [(''2020-01-01'', PDict a), (''2021-06-01'', PDict b)]) \<longrightarrow>
     generate_config_of_beamos (PDict mc) (2021, 12, 1) t =
       Inr (dict_merge (dict_merge (PDict []) (tier_merged (PDict a) t)) (tier_merged (PDict b) t)))
   \<and> (map_of mc ''beamos_date'' =
       Some (PDict [(''2021-06-01'', PDict b), (''2020-01-01'', PDict a)]) \<longrightarrow>
     generate_config_of_beamos (PDict mc) (2021, 12, 1) t =
       Inr (dict_merge (dict_merge (PDict []) (tier_merged (PDict b) t)) (tier_merged (PDict a) t)))"
proof (intro conjI impI)
  assume m: "map_of mc ''beamos_date'' =
       Some (PDict [(''2020-01-01'', PDict a), (''2021-06-01'', PDict b)])"
  show "generate_config_of_beamos (PDict mc) (2021, 12, 1) t =
       Inr (dict_merge (dict_merge (PDict []) (tier_merged (PDict a) t)) (tier_merged (PDict b) t))"
    unfolding generate_items[OF m]
    by (rule beamos_two[OF date_2020_01_01 date_2021_06_01])
       (simp_all add: less_prod_def less_eq_prod_def)
next
  assume m: "map_of mc ''beamos_date'' =
       Some (PDict [(''2021-06-01'', PDict b), (''2020-01-01'', PDict a)])"
  show "generate_config_of_beamos (PDict mc) (2021, 12, 1) t =
       Inr (dict_merge (dict_merge (PDict []) (tier_merged (PDict b) t)) (tier_merged (PDict a) t))"
    unfolding generate_items[OF m]
    by (rule beamos_two[OF date_2021_06_01 date_2020_01_01])
       (simp_all add: less_prod_def less_eq_prod_def)
qed

theorem generate_config_of_beamos_accumulates_witness:
  "generate_config_of_beamos
     (PDict [(''name'', PStr ''MrBeam Plugin''),
             (''beamos_date'', PDict [(''2020-01-01'', PDict [(''pip'', PStr ''old''), (''branch'', PStr ''legacy'')]),
                                      (''2021-06-01'', PDict [(''pip'', PStr ''new'')])])])
     (2021, 12, 1) ''stable''
   = Inr (PDict [(''pip'', PStr ''new''), (''branch'', PStr ''legacy'')])
   \<and> PDict [(''pip'', PStr ''new''), (''branch'', PStr ''legacy'')] \<noteq> PDict [(''pip'', PStr ''new'')]"
  using generate_config_of_beamos_accumulates
          [of "[(''name'', PStr ''MrBeam Plugin''),
             (''beamos_date'', PDict [(''2020-01-01'', PDict [(''pip'', PStr ''old''), (''branch'', PStr ''legacy'')]),
                                      (''2021-06-01'', PDict [(''pip'', PStr ''new'')])])]"
              "[(''pip'', PStr ''old''), (''branch'', PStr ''legacy'')]" "[(''pip'', PStr ''new'')]" "''stable''"]
  by (simp add: tier_merged_def)

subsection \<open>\<open>_set_info_from_cloud_config\<close>\<close>

lemma logExceptions_Inr: "logExceptions (Inr v, ev) = (Inr v, ev)"
  by (simp add: logExceptions_def)

lemma logExceptions_value: "fst (logExceptions r) = Inr v \<longleftrightarrow> fst r = Inr v"
  by (cases r; cases "fst r") (auto simp: logExceptions_def)

lemma set_info_write_failure:
  assumes "cc \<noteq> []"
    and "bind_exn (py_getitem (PDict cc) ''modules'') (\<lambda>modules.
         bind_exn (dict_items modules) (\<lambda>items.
         modules_loop plugin items
           (case map_of cc ''default'' of None \<Rightarrow> PNone | Some d \<Rightarrow> d) tier beamos_date []))
       = Inr sw_update_config"
    and "write_update_info plugin (path_join (settings_base_folder plugin) SW_UPDATE_INFO_FILE_NAME)
           (PDict sw_update_config) = Some e"
    and "e = IOError \<or> e = TypeError"
  shows "set_info_from_cloud_config plugin tier beamos_date (PDict cc) =
     (Inr PNone,
      [Logged DEBUG ''update_info {}'' [], Logged DEBUG ''sw_update_config {}'' [],
       Logged ERROR ''cannot create update info file'' [],
       Notification ''write_error_update_info_file_err''])"
proof -
  have "set_info_body plugin tier beamos_date (PDict cc) =
     (Inr PNone,
      [Logged DEBUG ''update_info {}'' [], Logged DEBUG ''sw_update_config {}'' [],
       Logged ERROR ''cannot create update info file'' [],
       Notification ''write_error_update_info_file_err''])"
    using assms by (auto simp: set_info_body_def Let_def)
  then show ?thesis
    by (simp add: set_info_from_cloud_config_def logExceptions_Inr)
qed

lemma set_info_body_None:
  assumes "write_fails plugin"
    and "fst (set_info_body plugin tier beamos_date cloud_config) = Inr r"
  shows "r = PNone"
proof (cases "py_truthy cloud_config")
  case False
  with assms(2) show ?thesis by (simp add: set_info_body_def)
next
  case True
  show ?thesis
  proof (cases cloud_config)
    case (PDict cc)
    let ?m = "bind_exn (py_getitem cloud_config ''modules'') (\<lambda>modules.
         bind_exn (dict_items modules) (\<lambda>items.
         modules_loop plugin items
           (case map_of cc ''default'' of None \<Rightarrow> PNone | Some d \<Rightarrow> d) tier beamos_date []))"
    show ?thesis
    proof (cases ?m)
      case (Inl e)
      with assms(2) True PDict show ?thesis
        by (simp add: set_info_body_def Let_def)
    next
      case (Inr sw)
      let ?p = "path_join (settings_base_folder plugin) SW_UPDATE_INFO_FILE_NAME"
      from assms(1) have "write_update_info plugin ?p (PDict sw) = Some IOError \<or>
          write_update_info plugin ?p (PDict sw) = Some TypeError"
        unfolding write_fails_def by blast
      with assms(2) True PDict Inr show ?thesis
        by (auto simp: set_info_body_def Let_def)
    qed
  qed (use assms(2) True in \<open>simp_all add: set_info_body_def\<close>)
qed

lemma set_info_returns_None:
  assumes "write_fails plugin"
    and "fst (set_info_from_cloud_config plugin tier beamos_date cloud_config) = Inr r"
  shows "r = PNone"
  using assms(2) set_info_body_None[OF assms(1), of tier beamos_date cloud_config r]
  by (simp add: set_info_from_cloud_config_def logExceptions_value)

subsection \<open>The fallback dictionary\<close>

lemma tier_cases:
  "tier \<in> set SW_UPDATE_TIERS \<Longrightarrow>
   get_tier_by_id tier \<in> {''stable'', ''beta'', ''alpha'', ''develop''}"
  by (auto simp: SW_UPDATE_TIERS_def SW_UPDATE_TIERS_DEV_def SW_UPDATE_TIERS_PROD_def
        get_tier_by_id_def DEFAULT_REPO_BRANCH_ID_def)

lemma fallback_generated:
  assumes "tier \<in> set SW_UPDATE_TIERS" and "module_id \<noteq> ''octoprint''"
  shows "generate_config_of_module (Suc n) plugin module_id (fallback_module name) (PDict []) tier
           beamos_date = Inr (fallback_record plugin module_id name)"
proof -
  have t: "get_tier_by_id tier \<notin> {''name'', ''type'', ''user'', ''repo'', ''pip''}"
    using tier_cases[OF assms(1)] by auto
  show ?thesis
    using assms t
    by (simp add: fallback_module_def fallback_record_def display_version_def bind_exn_def
          generate_config_of_beamos_def get_curent_version_def clean_update_config_def
          pop_list_def Let_def)
qed

lemma merge_fallback_module: "dict_merge (PDict []) (fallback_module name) = fallback_module name"
  by (simp add: fallback_module_def)

lemma fallback_loop:
  assumes "recursion_limit plugin = Suc n"
  shows "bind_exn (py_getitem FALLBACK_CONFIG ''modules'') (\<lambda>modules.
         bind_exn (dict_items modules) (\<lambda>items.
         modules_loop plugin items (PDict []) tier beamos_date []))
       = Inr (if tier \<in> set SW_UPDATE_TIERS then fallback_records plugin else [])"
  using assms
  by (simp add: FALLBACK_CONFIG_def bind_exn_def dict_items_def merge_fallback_module
        fallback_generated fallback_records_def del: generate_config_of_module.simps)

lemma fallback_config_items:
  "FALLBACK_CONFIG = PDict [(''default'', PDict []),
            (''modules'', PDict
               [(''mrbeam'', fallback_module '' MrBeam Plugin''),
                (''mrbeamdoc'', fallback_module ''Mr Beam Documentation''),
                (''netconnectd'', fallback_module ''OctoPrint-Netconnectd Plugin''),
                (''findmymrbeam'', fallback_module ''OctoPrint-FindMyMrBeam'')])]"
  by (simp add: FALLBACK_CONFIG_def)

lemma set_info_fallback:
  assumes "write_fails plugin" and "0 < recursion_limit plugin"
  shows "fst (set_info_from_cloud_config plugin tier beamos_date FALLBACK_CONFIG) = Inr PNone"
proof -
  from assms(2) obtain n where n: "recursion_limit plugin = Suc n"
    by (cases "recursion_limit plugin") auto
  let ?sw = "if tier \<in> set SW_UPDATE_TIERS then fallback_records plugin else []"
  let ?p = "path_join (settings_base_folder plugin) SW_UPDATE_INFO_FILE_NAME"
  obtain e where e: "write_update_info plugin ?p (PDict ?sw) = Some e" "e = IOError \<or> e = TypeError"
    using assms(1) unfolding write_fails_def by blast
  have "set_info_from_cloud_config plugin tier beamos_date FALLBACK_CONFIG =
     (Inr PNone,
      [Logged DEBUG ''update_info {}'' [], Logged DEBUG ''sw_update_config {}'' [],
       Logged ERROR ''cannot create update info file'' [],
       Notification ''write_error_update_info_file_err''])"
    unfolding fallback_config_items
    by (rule set_info_write_failure[where sw_update_config = ?sw and e = e])
       (use fallback_loop[OF n, of tier beamos_date] e in \<open>simp_all add: fallback_config_items\<close>)
  then show ?thesis by simp
qed

subsection \<open>\<open>get_update_information\<close>\<close>

lemma get_update_information_None:
  assumes "write_fails plugin" and "0 < recursion_limit plugin"
  shows "fst (get_update_information plugin) = Inr PNone"
proof -
  define tier where "tier = settings_tier plugin"
  define bd where "bd = snd (beamos_version plugin)"
  define fb where "fb = set_info_from_cloud_config plugin tier bd FALLBACK_CONFIG"
  have fb: "fst fb = Inr PNone"
    unfolding fb_def by (rule set_info_fallback[OF assms])
  have f: "fst (case fb of (r, ev') \<Rightarrow> (r, ev @ ev')) = Inr PNone" for ev
    using fb by (cases fb) simp
  have s: "fst (set_info_from_cloud_config plugin tier bd cc) = Inr r \<Longrightarrow> r = PNone" for cc r
    by (rule set_info_returns_None[OF assms(1)])
  have c: "fst (case set_info_from_cloud_config plugin tier bd cc of
                  (Inl e, ev) \<Rightarrow> (case fb of (r, ev') \<Rightarrow> (r, g ev e @ ev'))
                | (Inr r, ev) \<Rightarrow> (Inr r, h ev)) = Inr PNone" for cc g h
  proof (cases "set_info_from_cloud_config plugin tier bd cc")
    case (Pair r ev)
    show ?thesis
    proof (cases r)
      case (Inl e)
      with Pair f[of "g ev e"] show ?thesis by simp
    next
      case (Inr v)
      with Pair s[of cc v] show ?thesis by simp
    qed
  qed
  show ?thesis
    unfolding get_update_information_def Let_def tier_def[symmetric] bd_def[symmetric]
      fb_def[symmetric]
    using fb by (auto simp add: f c split: prod.split sum.split option.split)
qed

lemma offline_write_fails: "write_fails offline_plugin"
  by (simp add: write_fails_def offline_plugin_def)

lemma offline_records:
  "bind_exn (py_getitem FALLBACK_CONFIG ''modules'') (\<lambda>modules.
   bind_exn (dict_items modules) (\<lambda>items.
   modules_loop offline_plugin items (PDict []) ''PROD'' (2021, 12, 1) []))
   = Inr (fallback_records offline_plugin)"
proof -
  have "recursion_limit offline_plugin = Suc 999"
    by (simp add: offline_plugin_def)
  from fallback_loop[OF this, of "''PROD''" "(2021, 12, 1)"] show ?thesis
    by (simp add: SW_UPDATE_TIERS_def SW_UPDATE_TIERS_PROD_def)
qed

text \<open>
  Claim C9. When the attempt to write \<open>update_info.json\<close> raises IOError or TypeError,
  \<open>_set_info_from_cloud_config\<close> logs the error \<open>can't create update info file\<close>, shows the notification
  \<open>write_error_update_info_file_err\<close> and returns None, whatever records \<open>sw_update_config\<close> the loop
  over the modules had computed before the write; and on a device where every such write fails
  the caller of \<open>get_update_information\<close> receives None (on the cloud path as on the fallback path).
\<close>

theorem set_info_from_cloud_config_write_failure:
  "(cc \<noteq> [] \<longrightarrow>
    bind_exn (py_getitem (PDict cc) ''modules'') (\<lambda>modules.
      bind_exn (dict_items modules) (\<lambda>items.
      modules_loop plugin items
        (case map_of cc ''default'' of None \<Rightarrow> PNone | Some d \<Rightarrow> d) tier beamos_date []))
      = Inr sw_update_config \<longrightarrow>
    write_update_info plugin (path_join (settings_base_folder plugin) SW_UPDATE_INFO_FILE_NAME)
      (PDict sw_update_config) = Some e \<longrightarrow>
    (e = IOError \<or> e = TypeError) \<longrightarrow>
    set_info_from_cloud_config plugin tier beamos_date (PDict cc) =
      (Inr PNone,
       [Logged DEBUG ''update_info {}'' [], Logged DEBUG ''sw_update_config {}'' [],
        Logged ERROR ''cannot create update info file'' [],
        Notification ''write_error_update_info_file_err'']))
   \<and> (write_fails plugin \<longrightarrow> 0 < recursion_limit plugin \<longrightarrow>
        fst (get_update_information plugin) = Inr PNone)"
proof (intro conjI impI)
  assume "cc \<noteq> []"
    and "bind_exn (py_getitem (PDict cc) ''modules'') (\<lambda>modules.
      bind_exn (dict_items modules) (\<lambda>items.
      modules_loop plugin items
        (case map_of cc ''default'' of None \<Rightarrow> PNone | Some d \<Rightarrow> d) tier beamos_date []))
      = Inr sw_update_config"
    and "write_update_info plugin (path_join (settings_base_folder plugin) SW_UPDATE_INFO_FILE_NAME)
      (PDict sw_update_config) = Some e"
    and "e = IOError \<or> e = TypeError"
  then show "set_info_from_cloud_config plugin tier beamos_date (PDict cc) =
      (Inr PNone,
       [Logged DEBUG ''update_info {}'' [], Logged DEBUG ''sw_update_config {}'' [],
        Logged ERROR ''cannot create update info file'' [],
        Notification ''write_error_update_info_file_err''])"
    by (rule set_info_write_failure)
next
  assume "write_fails plugin" and "0 < recursion_limit plugin"
  then show "fst (get_update_information plugin) = Inr PNone"
    by (rule get_update_information_None)
qed

theorem set_info_from_cloud_config_write_failure_witness:
  "bind_exn (py_getitem FALLBACK_CONFIG ''modules'') (\<lambda>modules.
     bind_exn (dict_items modules) (\<lambda>items.
     modules_loop offline_plugin items (PDict []) ''PROD'' (2021, 12, 1) []))
     = Inr (fallback_records offline_plugin)
   \<and> length (fallback_records offline_plugin) = 4
   \<and> write_update_info offline_plugin
       (path_join (settings_base_folder offline_plugin) SW_UPDATE_INFO_FILE_NAME)
       (PDict (fallback_records offline_plugin)) = Some IOError
   \<and> set_info_from_cloud_config offline_plugin ''PROD'' (2021, 12, 1) FALLBACK_CONFIG =
       (Inr PNone,
        [Logged DEBUG ''update_info {}'' [], Logged DEBUG ''sw_update_config {}'' [],
         Logged ERROR ''cannot create update info file'' [],
         Notification ''write_error_update_info_file_err''])
   \<and> write_fails offline_plugin
   \<and> 0 < recursion_limit offline_plugin
   \<and> fst (get_update_information offline_plugin) = Inr PNone"
proof -
  have w: "write_update_info offline_plugin
       (path_join (settings_base_folder offline_plugin) SW_UPDATE_INFO_FILE_NAME)
       (PDict (fallback_records offline_plugin)) = Some IOError"
    by (simp add: offline_plugin_def)
  have r: "0 < recursion_limit offline_plugin"
    by (simp add: offline_plugin_def)
  have l: "length (fallback_records offline_plugin) = 4"
    by (simp add: fallback_records_def)
  note t = set_info_from_cloud_config_write_failure
      [of "[(''default'', PDict []),
            (''modules'', PDict
               [(''mrbeam'', fallback_module '' MrBeam Plugin''),
                (''mrbeamdoc'', fallback_module ''Mr Beam Documentation''),
                (''netconnectd'', fallback_module ''OctoPrint-Netconnectd Plugin''),
                (''findmymrbeam'', fallback_module ''OctoPrint-FindMyMrBeam'')])]"
          offline_plugin "''PROD''" "(2021, 12, 1)" "fallback_records offline_plugin" IOError,
       folded fallback_config_items]
  from t offline_records w r l offline_write_fails show ?thesis
    by simp
qed

end
